theory Spec2Isabelle
  imports Main
begin

section \<open>Values of the host runtime\<close>

text \<open>
  A JavaScript number that the program only ever reads as a line number: an integer, or
  \<open>None\<close> for NaN (what \<open>undefined - 1\<close> evaluates to).
\<close>

type_synonym jsnum = "int option"

text \<open>\<open>a === b\<close> on numbers: NaN is not equal to anything, itself included.\<close>

definition num_eq :: "jsnum \<Rightarrow> jsnum \<Rightarrow> bool" where
  "num_eq a b = (case a of None \<Rightarrow> False | Some x \<Rightarrow> (case b of None \<Rightarrow> False | Some y \<Rightarrow> x = y))"

text \<open>
  A thrown value. \<open>Err n m\<close> is an Error object of class name \<open>n\<close> with message \<open>m\<close>, a
  string; \<open>Thrown s\<close> is a thrown value that is no Error object and has no \<open>message\<close> (a
  string, a number, a boolean), kept as its string conversion. These are the values the
  host and the program itself throw: the host rejects its promises with Error objects.
  Null and undefined have no constructor here, and neither has an object whose \<open>message\<close> is
  not a string. The catches of the program that test \<open>instanceof Error\<close>, convert the value
  to a string or ignore it would treat null and undefined as they treat \<open>Thrown\<close>; the catch
  arm of \<open>getDebugStatus\<close> reads \<open>error.message\<close> and would not, see there.
\<close>

datatype js_exn = Err string string | Thrown string

text \<open>\<open>error instanceof Error ? error.message : dflt\<close>\<close>

fun message_or :: "string \<Rightarrow> js_exn \<Rightarrow> string" where
  "message_or dflt (Err n m) = m"
| "message_or dflt (Thrown s) = dflt"

text \<open>The template conversion \<open>`${error}`\<close>, which is Error.prototype.toString on an Error.\<close>

fun exn_string :: "js_exn \<Rightarrow> string" where
  "exn_string (Err n m) = (if n = [] then m else if m = [] then n else n @ '': '' @ m)"
| "exn_string (Thrown s) = s"

text \<open>
  The faults the engine itself raises on the paths below. Their message text belongs to the
  engine, so it is a field of the world (\<open>engineText\<close>).
\<close>

datatype native_fault = ReadOfUndefined string | PathNotString

subsection \<open>Node's path module (POSIX flavour)\<close>

definition startsWith :: "string \<Rightarrow> string \<Rightarrow> bool" where
  "startsWith s t = (take (length t) s = t)"

definition path_isAbsolute :: "string \<Rightarrow> bool" where
  "path_isAbsolute p = (case p of [] \<Rightarrow> False | c # cs \<Rightarrow> c = CHR ''/'')"

fun split_path :: "string \<Rightarrow> string list" where
  "split_path [] = [[]]"
| "split_path (c # cs) =
     (if c = CHR ''/'' then [] # split_path cs
      else (case split_path cs of [] \<Rightarrow> [[c]] | x # xs \<Rightarrow> (c # x) # xs))"

fun join_with :: "string \<Rightarrow> string list \<Rightarrow> string" where
  "join_with sep [] = []"
| "join_with sep [x] = x"
| "join_with sep (x # y # ys) = x @ sep @ join_with sep (y # ys)"

text \<open>
  normalizeString: the segments of a path with \<open>.\<close> and empty segments dropped and
  \<open>..\<close> resolved; the accumulator holds the segments kept so far, last first.
\<close>

fun norm_segs :: "bool \<Rightarrow> string list \<Rightarrow> string list \<Rightarrow> string list" where
  "norm_segs allowAboveRoot acc [] = rev acc"
| "norm_segs allowAboveRoot acc (s # ss) =
     (if s = [] \<or> s = ''.'' then norm_segs allowAboveRoot acc ss
      else if s = ''..'' then
        (case acc of
           [] \<Rightarrow> if allowAboveRoot then norm_segs allowAboveRoot [''..''] ss
                 else norm_segs allowAboveRoot [] ss
         | a # as \<Rightarrow> if a = ''..'' then norm_segs allowAboveRoot (''..'' # acc) ss
                     else norm_segs allowAboveRoot as ss)
      else norm_segs allowAboveRoot (s # acc) ss)"

definition path_normalize :: "string \<Rightarrow> string" where
  "path_normalize p =
     (if p = [] then ''.''
      else let isAbs = path_isAbsolute p;
               trailingSeparator = (last p = CHR ''/'');
               body = join_with ''/'' (norm_segs (\<not> isAbs) [] (split_path p))
           in if body = [] then (if isAbs then ''/'' else if trailingSeparator then ''./'' else ''.'')
              else let body' = (if trailingSeparator then body @ ''/'' else body)
                   in if isAbs then ''/'' @ body' else body')"

definition path_join :: "string list \<Rightarrow> string" where
  "path_join args =
     (case filter (\<lambda>a. a \<noteq> []) args of
        [] \<Rightarrow> ''.''
      | a # as \<Rightarrow> path_normalize (join_with ''/'' (a # as)))"

text \<open>The segments of \<open>path.resolve(p)\<close> for one argument; \<open>cwd\<close> is the working directory.\<close>

definition resolve_segs :: "string \<Rightarrow> string \<Rightarrow> string list" where
  "resolve_segs cwd p =
     norm_segs False [] (split_path (if path_isAbsolute p then p else cwd @ ''/'' @ p))"

fun strip_common :: "string list \<Rightarrow> string list \<Rightarrow> string list \<times> string list" where
  "strip_common (x # xs) (y # ys) = (if x = y then strip_common xs ys else (x # xs, y # ys))"
| "strip_common xs ys = (xs, ys)"

definition path_relative :: "string \<Rightarrow> string \<Rightarrow> string \<Rightarrow> string" where
  "path_relative cwd frm to =
     (if frm = to then []
      else case strip_common (resolve_segs cwd frm) (resolve_segs cwd to) of
        (fs, ts) \<Rightarrow> join_with ''/'' (replicate (length fs) ''..'' @ ts))"

section \<open>The debugger host\<close>

text \<open>
  \<open>vscode.debug.breakpoints\<close> holds source breakpoints (file path, 0-based line, enabled,
  condition) and breakpoints of other kinds, which the program filters out.
\<close>

datatype breakpoint =
  SourceBreakpoint string jsnum bool "string option"
| FunctionBreakpoint string

record thread =
  thread_id :: int
  thread_name :: string

record frame_source =
  source_path :: "string option"
  source_name :: "string option"

record stack_frame =
  frame_id :: int
  frame_name :: string
  frame_source :: "frame_source option"
  frame_line :: int
  frame_column :: int

text \<open>
  The requests \<open>session.customRequest\<close> is called with, and the response bodies the
  adapter answers. \<open>NoBody\<close> is a response without a body (\<open>undefined\<close>).
\<close>

datatype dap_request =
  Threads
| StackTrace "int option" nat nat
| Evaluate "string option" "int option" string
| Next int
| StepIn int
| StepOut int
| Continue int
| Pause int

datatype dap_response =
  NoBody
| ThreadsResponse "thread list option"
| StackTraceResponse "stack_frame list option"
| EvaluateResponse "string option"

record debug_session =
  session_id :: string
  session_name :: string
  session_type :: string
  customRequest :: "dap_request \<Rightarrow> js_exn + dap_response"

record debug_config =
  config_name :: string
  config_type :: string
  config_request :: string

text \<open>
  What \<open>.vscode/launch.json\<close> of a folder holds: no file, a file that cannot be read or
  parsed, or a parsed file whose \<open>configurations\<close> is an array (\<open>Some\<close>) or not.
\<close>

datatype launch_file = NoLaunchFile | BadLaunchFile | LaunchFile "debug_config list option"

text \<open>The eight operations of DebuggerTools, for the log of calls.\<close>

datatype facade_op =
  SetBreakpoint | RemoveBreakpoint | EvaluateExpression | ListDebugConfigurations
| StartDebugging | StopDebugging | GetDebugStatus | StepDebugger

text \<open>
  The state the program runs against. \<open>hostStart\<close> and \<open>hostStop\<close> stand for
  \<open>vscode.debug.startDebugging\<close> and \<open>vscode.debug.stopDebugging\<close>: they reject with an
  error, or resolve (\<open>hostStart\<close> with the session that became active, if one did).
  \<open>facadeCalls\<close> and \<open>adapterLog\<close> record, in order, every DebuggerTools operation entered
  and every request sent to the debug adapter.
\<close>

record world =
  debug_breakpoints :: "breakpoint list"
  debug_activeDebugSession :: "debug_session option"
  workspace_workspaceFolders :: "string list option"
  launchFiles :: "string \<Rightarrow> launch_file"
  settingsConfigurations :: "debug_config list"
  hostStart :: "debug_config \<Rightarrow> js_exn + debug_session option"
  hostStop :: "js_exn option"
  engineText :: "native_fault \<Rightarrow> string"
  cwd :: string
  facadeCalls :: "facade_op list"
  adapterLog :: "dap_request list"

definition typeError :: "world \<Rightarrow> native_fault \<Rightarrow> js_exn" where
  "typeError w f = Err ''TypeError'' (engineText w f)"

definition entered :: "facade_op \<Rightarrow> world \<Rightarrow> world" where
  "entered c w = w\<lparr>facadeCalls := facadeCalls w @ [c]\<rparr>"

text \<open>\<open>session.customRequest(command, args)\<close>: the request is logged and the adapter answers.\<close>

definition sendRequest :: "debug_session \<Rightarrow> dap_request \<Rightarrow> world \<Rightarrow> (js_exn + dap_response) \<times> world" where
  "sendRequest s r w = (customRequest s r, w\<lparr>adapterLog := adapterLog w @ [r]\<rparr>)"

text \<open>\<open>new vscode.Position(line, 0)\<close> throws on a negative line and accepts NaN.\<close>

definition new_Position :: "jsnum \<Rightarrow> js_exn + jsnum" where
  "new_Position ln =
     (case ln of
        None \<Rightarrow> Inr None
      | Some n \<Rightarrow> if n < 0 then Inl (Err ''Error'' ''Illegal argument: line must be non-negative'')
                  else Inr (Some n))"

section \<open>DebuggerTools\<close>

text \<open>
  The arguments of a tool call, with the fields the tools read; \<open>None\<close> is a field the
  caller left out.
\<close>

record tool_args =
  arg_path :: "string option"
  arg_line :: "int option"
  arg_condition :: "string option"
  arg_expression :: "string option"
  arg_frameId :: "int option"
  arg_configName :: "string option"
  arg_type :: "string option"
  arg_threadId :: "int option"

definition resolveFilePath :: "world \<Rightarrow> string option \<Rightarrow> js_exn + string" where
  "resolveFilePath w filePath =
     (case filePath of
        None \<Rightarrow> Inl (typeError w PathNotString)
      | Some p \<Rightarrow>
          if path_isAbsolute p then Inr p
          else (case workspace_workspaceFolders w of
                  None \<Rightarrow> Inl (Err ''Error'' ''No workspace folder open'')
                | Some [] \<Rightarrow> Inl (Err ''Error'' ''No workspace folder open'')
                | Some (f # fs) \<Rightarrow> Inr (path_join [f, p])))"

definition getRelativePath :: "world \<Rightarrow> string \<Rightarrow> string" where
  "getRelativePath w absolutePath =
     (case workspace_workspaceFolders w of
        None \<Rightarrow> absolutePath
      | Some folders \<Rightarrow>
          (case find (\<lambda>folderPath. startsWith absolutePath folderPath) folders of
             Some folderPath \<Rightarrow> path_relative (cwd w) folderPath absolutePath
           | None \<Rightarrow> absolutePath))"

definition setBreakpoint :: "world \<Rightarrow> tool_args option \<Rightarrow> (js_exn + breakpoint) \<times> world" where
  "setBreakpoint w0 params =
     (let w = entered SetBreakpoint w0 in
      case params of
        None \<Rightarrow> (Inl (typeError w (ReadOfUndefined ''path'')), w)
      | Some a \<Rightarrow>
          (case resolveFilePath w (arg_path a) of
             Inl e \<Rightarrow> (Inl e, w)
           | Inr absolutePath \<Rightarrow>
               (case new_Position (map_option (\<lambda>n. n - 1) (arg_line a)) of
                  Inl e \<Rightarrow> (Inl e, w)
                | Inr ln \<Rightarrow>
                    let location = SourceBreakpoint absolutePath ln True (arg_condition a)
                    in (Inr location, w\<lparr>debug_breakpoints := debug_breakpoints w @ [location]\<rparr>))))"

fun located_at :: "string \<Rightarrow> jsnum \<Rightarrow> breakpoint \<Rightarrow> bool" where
  "located_at absolutePath ln (SourceBreakpoint p l en c) = (p = absolutePath \<and> num_eq l ln)"
| "located_at absolutePath ln (FunctionBreakpoint f) = False"

definition removeBreakpoint :: "world \<Rightarrow> tool_args option \<Rightarrow> (js_exn + unit) \<times> world" where
  "removeBreakpoint w0 params =
     (let w = entered RemoveBreakpoint w0 in
      case params of
        None \<Rightarrow> (Inl (typeError w (ReadOfUndefined ''path'')), w)
      | Some a \<Rightarrow>
          (case resolveFilePath w (arg_path a) of
             Inl e \<Rightarrow> (Inl e, w)
           | Inr absolutePath \<Rightarrow>
               let ln = map_option (\<lambda>n. n - 1) (arg_line a);
                   toRemove = filter (located_at absolutePath ln) (debug_breakpoints w)
               in if length toRemove > 0
                  then (Inr (), w\<lparr>debug_breakpoints :=
                          filter (\<lambda>bp. \<not> located_at absolutePath ln bp) (debug_breakpoints w)\<rparr>)
                  else (Inr (), w)))"

text \<open>\<open>response.result || 'undefined'\<close> on the body of an evaluate response.\<close>

definition resultOf :: "world \<Rightarrow> dap_response \<Rightarrow> js_exn + string" where
  "resultOf w response =
     (case response of
        NoBody \<Rightarrow> Inl (typeError w (ReadOfUndefined ''result''))
      | EvaluateResponse r \<Rightarrow>
          (case r of None \<Rightarrow> Inr ''undefined'' | Some s \<Rightarrow> if s = [] then Inr ''undefined'' else Inr s)
      | ThreadsResponse t \<Rightarrow> Inr ''undefined''
      | StackTraceResponse f \<Rightarrow> Inr ''undefined'')"

definition evaluateFailed :: "js_exn \<Rightarrow> js_exn" where
  "evaluateFailed e = Err ''Error'' (''Failed to evaluate expression: '' @ exn_string e)"

definition evaluateExpression :: "world \<Rightarrow> tool_args option \<Rightarrow> (js_exn + string) \<times> world" where
  "evaluateExpression w0 params =
     (let w = entered EvaluateExpression w0 in
      case debug_activeDebugSession w of
        None \<Rightarrow> (Inl (Err ''Error'' ''No active debug session''), w)
      | Some session \<Rightarrow>
          (case params of
             None \<Rightarrow> (Inl (evaluateFailed (typeError w (ReadOfUndefined ''expression''))), w)
           | Some a \<Rightarrow>
               (case sendRequest session (Evaluate (arg_expression a) (arg_frameId a) ''repl'') w of
                  (Inl e, w1) \<Rightarrow> (Inl (evaluateFailed e), w1)
                | (Inr response, w1) \<Rightarrow>
                    (case resultOf w1 response of
                       Inl e \<Rightarrow> (Inl (evaluateFailed e), w1)
                     | Inr r \<Rightarrow> (Inr r, w1)))))"

fun launchConfigurations :: "launch_file \<Rightarrow> debug_config list" where
  "launchConfigurations NoLaunchFile = []"
| "launchConfigurations BadLaunchFile = []"
| "launchConfigurations (LaunchFile None) = []"
| "launchConfigurations (LaunchFile (Some cs)) = cs"

definition listDebugConfigurations :: "world \<Rightarrow> debug_config list \<times> world" where
  "listDebugConfigurations w0 =
     (let w = entered ListDebugConfigurations w0 in
      case workspace_workspaceFolders w of
        None \<Rightarrow> ([], w)
      | Some [] \<Rightarrow> ([], w)
      | Some (f # fs) \<Rightarrow>
          (concat (map (\<lambda>folder. launchConfigurations
                          (launchFiles w (path_join [folder, ''.vscode'', ''launch.json''])))
                       (f # fs))
             @ settingsConfigurations w, w))"

definition squote :: string where
  "squote = [CHR 0x27]"

text \<open>\<open>await vscode.debug.startDebugging(folder, config)\<close>\<close>

definition launch :: "world \<Rightarrow> debug_config \<Rightarrow> (js_exn + unit) \<times> world" where
  "launch w config =
     (case hostStart w config of
        Inl e \<Rightarrow> (Inl e, w)
      | Inr None \<Rightarrow> (Inr (), w)
      | Inr (Some s) \<Rightarrow> (Inr (), w\<lparr>debug_activeDebugSession := Some s\<rparr>))"

definition startDebugging :: "world \<Rightarrow> string option \<Rightarrow> (js_exn + unit) \<times> world" where
  "startDebugging w0 configName =
     (case listDebugConfigurations (entered StartDebugging w0) of
        (configurations, w) \<Rightarrow>
          (case (case configName of None \<Rightarrow> None | Some n \<Rightarrow> if n = [] then None else Some n) of
             Some n \<Rightarrow>
               (case find (\<lambda>c. config_name c = n) configurations of
                  None \<Rightarrow> (Inl (Err ''Error''
                             (''Debug configuration '' @ squote @ n @ squote @ '' not found'')), w)
                | Some config \<Rightarrow> launch w config)
           | None \<Rightarrow>
               (case configurations of
                  c # cs \<Rightarrow> launch w c
                | [] \<Rightarrow> (Inl (Err ''Error'' ''No debug configurations found''), w))))"

definition stopDebugging :: "world \<Rightarrow> (js_exn + unit) \<times> world" where
  "stopDebugging w0 =
     (let w = entered StopDebugging w0 in
      case debug_activeDebugSession w of
        None \<Rightarrow> (Inl (Err ''Error'' ''No active debug session''), w)
      | Some session \<Rightarrow>
          (case hostStop w of
             Some e \<Rightarrow> (Inl e, w)
           | None \<Rightarrow> (Inr (), w\<lparr>debug_activeDebugSession := None\<rparr>)))"

subsection \<open>The status snapshot\<close>

record bp_descriptor =
  path :: string
  line :: jsnum
  enabled :: bool
  condition :: "string option"

record session_info =
  info_id :: string
  info_name :: string
  info_type :: string

record debug_status =
  isActive :: bool
  isPaused :: bool
  activeSession :: "session_info option"
  threads :: "thread list option"
  activeThreadId :: "int option"
  stackFrames :: "stack_frame list option"
  breakpoints :: "bp_descriptor list"

text \<open>
  The breakpoints of the snapshot: the source breakpoints, each with its path made relative
  and its line 1-based (the filter and the map of the source in one pass).
\<close>

fun descriptor :: "world \<Rightarrow> breakpoint \<Rightarrow> bp_descriptor option" where
  "descriptor w (SourceBreakpoint p l en c) =
     Some \<lparr>path = getRelativePath w p, line = map_option (\<lambda>n. n + 1) l,
           enabled = en, condition = c\<rparr>"
| "descriptor w (FunctionBreakpoint f) = None"

definition descriptors :: "world \<Rightarrow> bp_descriptor list" where
  "descriptors w = List.map_filter (descriptor w) (debug_breakpoints w)"

text \<open>\<open>threadsResponse.threads\<close>\<close>

definition threadsOf :: "world \<Rightarrow> dap_response \<Rightarrow> js_exn + thread list option" where
  "threadsOf w response =
     (case response of
        NoBody \<Rightarrow> Inl (typeError w (ReadOfUndefined ''threads''))
      | ThreadsResponse t \<Rightarrow> Inr t
      | StackTraceResponse f \<Rightarrow> Inr None
      | EvaluateResponse r \<Rightarrow> Inr None)"

text \<open>\<open>stackTraceResponse && stackTraceResponse.stackFrames\<close>, when it is truthy.\<close>

definition stackFramesOf :: "dap_response \<Rightarrow> stack_frame list option" where
  "stackFramesOf response =
     (case response of
        NoBody \<Rightarrow> None
      | StackTraceResponse f \<Rightarrow> f
      | ThreadsResponse t \<Rightarrow> None
      | EvaluateResponse r \<Rightarrow> None)"

definition relativeSource :: "world \<Rightarrow> frame_source \<Rightarrow> frame_source" where
  "relativeSource w s =
     \<lparr>source_path = (case source_path s of
                        None \<Rightarrow> None
                      | Some p \<Rightarrow> if p = [] then None else Some (getRelativePath w p)),
      source_name = source_name s\<rparr>"

definition relativeFrame :: "world \<Rightarrow> stack_frame \<Rightarrow> stack_frame" where
  "relativeFrame w frame =
     \<lparr>frame_id = frame_id frame, frame_name = frame_name frame,
      frame_source = map_option (relativeSource w) (frame_source frame),
      frame_line = frame_line frame, frame_column = frame_column frame\<rparr>"

definition mainThread :: thread where
  "mainThread = \<lparr>thread_id = 1, thread_name = ''main''\<rparr>"

text \<open>The object the function returns, from the values its local variables hold.\<close>

definition snapshot ::
  "debug_session option \<Rightarrow> thread list option \<Rightarrow> int option \<Rightarrow> stack_frame list option
     \<Rightarrow> bp_descriptor list \<Rightarrow> debug_status" where
  "snapshot session ths tid frames bps =
     \<lparr>isActive = (session \<noteq> None),
      isPaused = (frames \<noteq> None),
      activeSession = map_option (\<lambda>s. \<lparr>info_id = session_id s, info_name = session_name s,
                                         info_type = session_type s\<rparr>) session,
      threads = ths, activeThreadId = tid, stackFrames = frames, breakpoints = bps\<rparr>"

text \<open>The inner try block: the stack trace of the active thread, if one can be had.\<close>

definition stackTraceOf ::
  "world \<Rightarrow> debug_session \<Rightarrow> int option \<Rightarrow> stack_frame list option \<times> world" where
  "stackTraceOf w session tid =
     (case sendRequest session (StackTrace tid 0 20) w of
        (Inl e, w1) \<Rightarrow> (None, w1)
      | (Inr stackTraceResponse, w1) \<Rightarrow>
          (map_option (map (relativeFrame w1)) (stackFramesOf stackTraceResponse), w1))"

text \<open>
  The outer try block holds the threads request and, nested, the stack trace. Its catch arm
  sets the synthetic thread and then reads \<open>error.message\<close>, to log the failure unless the
  message says \<open>not supported\<close>. On every value of \<open>js_exn\<close> that read succeeds and the log is
  not part of the world, so the arm ends in the snapshot. The read is not guarded: on a
  rejection with null or undefined (or a message that is no string) it throws inside the
  catch arm and the call rejects. Such a rejection is no value of \<open>js_exn\<close>, so no session of
  this model shows it; what is proved below about a failed thread listing is about the
  failures of \<open>js_exn\<close>.
\<close>

definition getDebugStatus :: "world \<Rightarrow> (js_exn + debug_status) \<times> world" where
  "getDebugStatus w0 =
     (let w = entered GetDebugStatus w0;
          session = debug_activeDebugSession w;
          bps = descriptors w
      in case session of
           None \<Rightarrow> (Inr (snapshot session None None None bps), w)
         | Some s \<Rightarrow>
             (case sendRequest s Threads w of
                (Inl e, w1) \<Rightarrow> (Inr (snapshot session (Some [mainThread]) (Some 1) None bps), w1)
              | (Inr threadsResponse, w1) \<Rightarrow>
                  (case threadsOf w1 threadsResponse of
                     Inl e \<Rightarrow> (Inr (snapshot session (Some [mainThread]) (Some 1) None bps), w1)
                   | Inr t \<Rightarrow>
                       let ths0 = (case t of None \<Rightarrow> [] | Some ts \<Rightarrow> ts);
                           ths = (if length ths0 = 0 then [mainThread] else ths0);
                           tid = (case ths of [] \<Rightarrow> None | th # rest \<Rightarrow> Some (thread_id th))
                       in case stackTraceOf w1 s tid of
                            (frames, w2) \<Rightarrow> (Inr (snapshot session (Some ths) tid frames bps), w2))))"

subsection \<open>Stepping\<close>

text \<open>The thread a step applies to when the caller names none.\<close>

definition activeThread :: "world \<Rightarrow> debug_session \<Rightarrow> int \<times> world" where
  "activeThread w session =
     (case sendRequest session Threads w of
        (Inl e, w1) \<Rightarrow> (1, w1)
      | (Inr threadsResponse, w1) \<Rightarrow>
          (case threadsOf w1 threadsResponse of
             Inl e \<Rightarrow> (1, w1)
           | Inr None \<Rightarrow> (1, w1)
           | Inr (Some []) \<Rightarrow> (1, w1)
           | Inr (Some (th # rest)) \<Rightarrow> (thread_id th, w1)))"

definition issue :: "debug_session \<Rightarrow> dap_request \<Rightarrow> world \<Rightarrow> (js_exn + unit) \<times> world" where
  "issue session r w =
     (case sendRequest session r w of
        (Inl e, w1) \<Rightarrow> (Inl e, w1)
      | (Inr response, w1) \<Rightarrow> (Inr (), w1))"

text \<open>\<open>`${params.type}`\<close>\<close>

definition typeText :: "string option \<Rightarrow> string" where
  "typeText ty = (case ty of None \<Rightarrow> ''undefined'' | Some s \<Rightarrow> s)"

definition stepDebugger :: "world \<Rightarrow> tool_args option \<Rightarrow> (js_exn + unit) \<times> world" where
  "stepDebugger w0 params =
     (let w = entered StepDebugger w0 in
      case debug_activeDebugSession w of
        None \<Rightarrow> (Inl (Err ''Error'' ''No active debug session''), w)
      | Some session \<Rightarrow>
          (case params of
             None \<Rightarrow> (Inl (typeError w (ReadOfUndefined ''threadId'')), w)
           | Some a \<Rightarrow>
               (case (case arg_threadId a of
                        None \<Rightarrow> activeThread w session
                      | Some t \<Rightarrow> if t = 0 then activeThread w session else (t, w)) of
                  (threadId, w1) \<Rightarrow>
                    if arg_type a = Some ''stepOver'' then issue session (Next threadId) w1
                    else if arg_type a = Some ''stepInto'' then issue session (StepIn threadId) w1
                    else if arg_type a = Some ''stepOut'' then issue session (StepOut threadId) w1
                    else if arg_type a = Some ''continue'' then issue session (Continue threadId) w1
                    else if arg_type a = Some ''pause'' then issue session (Pause threadId) w1
                    else (Inl (Err ''Error'' (''Unknown step type: '' @ typeText (arg_type a))), w1))))"

section \<open>The protocol router (MCPServer)\<close>

text \<open>
  A request id is a string or a number; \<open>IdUndefined\<close> is a request without one and
  \<open>IdNull\<close> the id of the transport's own error replies.

  A request is an object with the fields of the interface \<open>MCPRequest\<close>, each of them
  possibly missing. Its \<open>params\<close>, which the interface leaves as \<open>any\<close>, are here an object
  whose \<open>name\<close> is a string or missing and whose \<open>arguments\<close> are an object with the fields
  the tools declare, or missing. A body that is JSON null, and a \<open>name\<close> that is not a
  string, are not values of these types.
\<close>

datatype json_id = IdString string | IdNumber int | IdNull | IdUndefined

record call_params =
  name :: "string option"
  arguments :: "tool_args option"

record MCPRequest =
  req_jsonrpc :: "string option"
  req_id :: json_id
  req_method :: "string option"
  req_params :: "call_params option"

record MCPError =
  code :: int
  message :: string
  data :: "string option"

record schema_property =
  prop_name :: string
  prop_type :: string
  prop_description :: string
  prop_enum :: "string list option"

record MCPTool =
  tool_name :: string
  tool_description :: string
  properties :: "schema_property list"
  required :: "string list option"

text \<open>What a tool hands back, before it is serialised into the text of the reply.\<close>

datatype tool_result =
  BreakpointResult "string option" jsnum bool "string option"
| SuccessResult
| EvaluateResult string
| ConfigurationsResult "debug_config list"
| StatusResult debug_status

text \<open>
  The \<open>result\<close> of a response: the server metadata, the registry, or the envelope
  \<open>{content: [{type: 'text', text: JSON.stringify(result, null, 2)}]}\<close>, kept as the value
  that is serialised.
\<close>

datatype mcp_result =
  InitializeResult string "string list" string string
| ToolsListResult "MCPTool list"
| ToolContent tool_result

record MCPResponse =
  res_jsonrpc :: string
  res_id :: json_id
  res_result :: "mcp_result option"
  res_error :: "MCPError option"

definition ParseError :: int where "ParseError = - 32700"
definition InvalidRequest :: int where "InvalidRequest = - 32600"
definition MethodNotFound :: int where "MethodNotFound = - 32601"
definition InvalidParams :: int where "InvalidParams = - 32602"
definition InternalError :: int where "InternalError = - 32603"
definition ServerError :: int where "ServerError = - 32000"

definition property :: "string \<Rightarrow> string \<Rightarrow> string \<Rightarrow> schema_property" where
  "property n t d = \<lparr>prop_name = n, prop_type = t, prop_description = d, prop_enum = None\<rparr>"

definition tools :: "MCPTool list" where
  "tools =
     [\<lparr>tool_name = ''set_breakpoint'',
       tool_description = ''Set a breakpoint at a specific line in a file'',
       properties = [property ''path'' ''string'' ''File path (absolute or relative to workspace)'',
                     property ''line'' ''number'' ''Line number (1-based)'',
                     property ''condition'' ''string'' ''Optional breakpoint condition''],
       required = Some [''path'', ''line'']\<rparr>,
      \<lparr>tool_name = ''remove_breakpoint'',
       tool_description = ''Remove a breakpoint at a specific line in a file'',
       properties = [property ''path'' ''string'' ''File path (absolute or relative to workspace)'',
                     property ''line'' ''number'' ''Line number (1-based)''],
       required = Some [''path'', ''line'']\<rparr>,
      \<lparr>tool_name = ''evaluate_expression'',
       tool_description = ''Evaluate an expression in the current debug context'',
       properties = [property ''expression'' ''string'' ''Expression to evaluate'',
                     property ''frameId'' ''number'' ''Optional stack frame ID''],
       required = Some [''expression'']\<rparr>,
      \<lparr>tool_name = ''list_debug_configurations'',
       tool_description = ''List all available debug configurations from launch.json'',
       properties = [],
       required = None\<rparr>,
      \<lparr>tool_name = ''start_debugging'',
       tool_description = ''Start a debugging session'',
       properties = [property ''configName'' ''string'' ''Optional configuration name to use''],
       required = None\<rparr>,
      \<lparr>tool_name = ''stop_debugging'',
       tool_description = ''Stop the current debugging session'',
       properties = [],
       required = None\<rparr>,
      \<lparr>tool_name = ''get_debug_status'',
       tool_description = ''Get the current debug status including active session, threads, stack frames, and breakpoints'',
       properties = [],
       required = None\<rparr>,
      \<lparr>tool_name = ''step_debugger'',
       tool_description = ''Control debugger stepping (step over, step into, step out, continue, pause)'',
       properties = [\<lparr>prop_name = ''type'', prop_type = ''string'',
                      prop_description = ''Type of step operation'',
                      prop_enum = Some [''stepOver'', ''stepInto'', ''stepOut'', ''continue'', ''pause'']\<rparr>,
                     property ''threadId'' ''number'' ''Optional thread ID''],
       required = Some [''type'']\<rparr>]"

definition createErrorResponse :: "json_id \<Rightarrow> int \<Rightarrow> string \<Rightarrow> MCPResponse" where
  "createErrorResponse i c m =
     \<lparr>res_jsonrpc = ''2.0'', res_id = i, res_result = None,
      res_error = Some \<lparr>code = c, message = m, data = None\<rparr>\<rparr>"

definition resultResponse :: "json_id \<Rightarrow> mcp_result \<Rightarrow> MCPResponse" where
  "resultResponse i r =
     \<lparr>res_jsonrpc = ''2.0'', res_id = i, res_result = Some r, res_error = None\<rparr>"

definition handleInitialize :: "MCPRequest \<Rightarrow> MCPResponse" where
  "handleInitialize request =
     resultResponse (req_id request)
       (InitializeResult ''2024-11-05'' [''tools'', ''logging''] ''vscode-debugger-mcp'' ''0.0.1'')"

definition handleToolsList :: "MCPRequest \<Rightarrow> MCPResponse" where
  "handleToolsList request = resultResponse (req_id request) (ToolsListResult tools)"

text \<open>\<open>!s\<close> on an optional string: a missing string and the empty string are falsy.\<close>

definition falsy :: "string option \<Rightarrow> bool" where
  "falsy s = (case s of None \<Rightarrow> True | Some t \<Rightarrow> t = [])"

text \<open>
  The object the router builds from the breakpoint \<open>set_breakpoint\<close> returned: the path is
  the one the caller gave, the line is 1-based again.
\<close>

definition breakpointResult :: "world \<Rightarrow> tool_args option \<Rightarrow> breakpoint \<Rightarrow> js_exn + tool_result" where
  "breakpointResult w args bp =
     (case args of
        None \<Rightarrow> Inl (typeError w (ReadOfUndefined ''path''))
      | Some a \<Rightarrow>
          (case bp of
             SourceBreakpoint p l en c \<Rightarrow>
               Inr (BreakpointResult (arg_path a) (map_option (\<lambda>n. n + 1) l) en c)
           | FunctionBreakpoint f \<Rightarrow> Inl (typeError w (ReadOfUndefined ''range''))))"

text \<open>
  The switch on the tool name inside the try block. \<open>Inr None\<close> is its default branch, which
  returns the "not implemented" response instead of a result.
\<close>

definition invoke ::
  "world \<Rightarrow> string \<Rightarrow> tool_args option \<Rightarrow> (js_exn + tool_result option) \<times> world" where
  "invoke w nm args =
     (if nm = ''set_breakpoint'' then
        (case setBreakpoint w args of
           (Inl e, w1) \<Rightarrow> (Inl e, w1)
         | (Inr bp, w1) \<Rightarrow>
             (case breakpointResult w1 args bp of
                Inl e \<Rightarrow> (Inl e, w1)
              | Inr r \<Rightarrow> (Inr (Some r), w1)))
      else if nm = ''remove_breakpoint'' then
        (case removeBreakpoint w args of
           (Inl e, w1) \<Rightarrow> (Inl e, w1)
         | (Inr u, w1) \<Rightarrow> (Inr (Some SuccessResult), w1))
      else if nm = ''evaluate_expression'' then
        (case evaluateExpression w args of
           (Inl e, w1) \<Rightarrow> (Inl e, w1)
         | (Inr r, w1) \<Rightarrow> (Inr (Some (EvaluateResult r)), w1))
      else if nm = ''list_debug_configurations'' then
        (case listDebugConfigurations w of
           (cs, w1) \<Rightarrow> (Inr (Some (ConfigurationsResult cs)), w1))
      else if nm = ''start_debugging'' then
        (case startDebugging w (case args of None \<Rightarrow> None | Some a \<Rightarrow> arg_configName a) of
           (Inl e, w1) \<Rightarrow> (Inl e, w1)
         | (Inr u, w1) \<Rightarrow> (Inr (Some SuccessResult), w1))
      else if nm = ''stop_debugging'' then
        (case stopDebugging w of
           (Inl e, w1) \<Rightarrow> (Inl e, w1)
         | (Inr u, w1) \<Rightarrow> (Inr (Some SuccessResult), w1))
      else if nm = ''get_debug_status'' then
        (case getDebugStatus w of
           (Inl e, w1) \<Rightarrow> (Inl e, w1)
         | (Inr st, w1) \<Rightarrow> (Inr (Some (StatusResult st)), w1))
      else if nm = ''step_debugger'' then
        (case stepDebugger w args of
           (Inl e, w1) \<Rightarrow> (Inl e, w1)
         | (Inr u, w1) \<Rightarrow> (Inr (Some SuccessResult), w1))
      else (Inr None, w))"

text \<open>
  \<open>handleToolsCall\<close>: the two checks of the name, then the try block around the switch. The
  checks stand before the try block. With a name that is a string or missing they return a
  response, so the function returns a response on every request of \<open>MCPRequest\<close>, and that
  is its type here. In the source a name that is no string and has no string conversion
  (the JSON object \<open>{"toString": 1}\<close>) throws in the template literal of the "not found"
  reply, outside the try block, and the promise rejects; such a name is not a value of
  \<open>call_params\<close>.
\<close>

definition handleToolsCall :: "world \<Rightarrow> MCPRequest \<Rightarrow> MCPResponse \<times> world" where
  "handleToolsCall w request =
     (let p = (case req_params request of
                 None \<Rightarrow> \<lparr>name = None, arguments = None\<rparr>
               | Some q \<Rightarrow> q)
      in case name p of
           None \<Rightarrow> (createErrorResponse (req_id request) InvalidParams ''Tool name is required'', w)
         | Some nm \<Rightarrow>
             if nm = [] then
               (createErrorResponse (req_id request) InvalidParams ''Tool name is required'', w)
             else
               (case find (\<lambda>t. tool_name t = nm) tools of
                  None \<Rightarrow>
                    (createErrorResponse (req_id request) InvalidParams
                       (''Tool '' @ squote @ nm @ squote @ '' not found''), w)
                | Some tool \<Rightarrow>
                    (case invoke w nm (arguments p) of
                       (Inl e, w1) \<Rightarrow>
                         (createErrorResponse (req_id request) InternalError
                            (message_or ''Tool execution failed'' e), w1)
                     | (Inr None, w1) \<Rightarrow>
                         (createErrorResponse (req_id request) MethodNotFound
                            (''Tool '' @ squote @ nm @ squote @ '' not implemented''), w1)
                     | (Inr (Some r), w1) \<Rightarrow>
                         (resultResponse (req_id request) (ToolContent r), w1))))"

text \<open>
  The body of the try block of \<open>handleRequest\<close>: validation, then the switch on the method.
  Nothing in it throws on a request of \<open>MCPRequest\<close>, so it always ends in \<open>Inr\<close>; the catch
  of \<open>handleRequest\<close> is kept all the same. The switch returns the promise of
  \<open>handleToolsCall\<close> without awaiting it, so a rejection of that promise would not reach
  the catch; on the requests of \<open>MCPRequest\<close> there is none. The catch reads \<open>request.id\<close>,
  which every request object has (possibly undefined) and JSON null has not.
\<close>

definition route :: "world \<Rightarrow> MCPRequest \<Rightarrow> (js_exn + MCPResponse) \<times> world" where
  "route w request =
     (if falsy (req_jsonrpc request) \<or> req_jsonrpc request \<noteq> Some ''2.0'' then
        (Inr (createErrorResponse (req_id request) InvalidRequest ''Invalid JSON-RPC version''), w)
      else case req_method request of
        None \<Rightarrow> (Inr (createErrorResponse (req_id request) InvalidRequest ''Method is required''), w)
      | Some m \<Rightarrow>
          if m = [] then
            (Inr (createErrorResponse (req_id request) InvalidRequest ''Method is required''), w)
          else if m = ''initialize'' then (Inr (handleInitialize request), w)
          else if m = ''tools/list'' then (Inr (handleToolsList request), w)
          else if m = ''tools/call'' then
            (case handleToolsCall w request of (r, w1) \<Rightarrow> (Inr r, w1))
          else
            (Inr (createErrorResponse (req_id request) MethodNotFound
                    (''Method '' @ squote @ m @ squote @ '' not found'')), w))"

definition handleRequest :: "world \<Rightarrow> MCPRequest \<Rightarrow> MCPResponse \<times> world" where
  "handleRequest w request =
     (case route w request of
        (Inr r, w1) \<Rightarrow> (r, w1)
      | (Inl e, w1) \<Rightarrow>
          (createErrorResponse (req_id request) InternalError (message_or ''Unknown error'' e), w1))"

section \<open>The transport (SSEServer)\<close>

text \<open>
  The open listener channels are the \<open>Set\<close> of the source, in insertion order. A channel is
  named by a number; \<open>broken\<close> says of each channel whether writing to it throws. \<open>written\<close>
  records every payload that reached a channel.
\<close>

record transport =
  clients :: "nat list"
  broken :: "nat \<Rightarrow> bool"
  written :: "(nat \<times> MCPResponse) list"

text \<open>
  \<open>this.clients.forEach\<close>: each channel of the set is visited once, in order; deleting
  the channel being visited does not disturb the visit of the others.
\<close>

fun broadcastTo :: "nat list \<Rightarrow> MCPResponse \<Rightarrow> transport \<Rightarrow> transport" where
  "broadcastTo [] msg t = t"
| "broadcastTo (client # rest) msg t =
     (if client \<in> set (clients t) then
        (if broken t client
         then broadcastTo rest msg (t\<lparr>clients := removeAll client (clients t)\<rparr>)
         else broadcastTo rest msg (t\<lparr>written := written t @ [(client, msg)]\<rparr>))
      else broadcastTo rest msg t)"

definition broadcast :: "MCPResponse \<Rightarrow> transport \<Rightarrow> transport" where
  "broadcast msg t = broadcastTo (clients t) msg t"

text \<open>
  The body of a POST, after the body parsers: text that does not parse as JSON, or a
  request (parsed from text, or delivered as an object). The handler's outer catch replies
  with status 500, id null and the code -32603 when \<open>handleRequest\<close> rejects. It has no
  branch here: \<open>handleRequest\<close> returns for every request of \<open>MCPRequest\<close>, and \<open>broadcast\<close>
  catches the failures of its writes itself. The bodies on which \<open>handleRequest\<close> rejects
  (JSON null, a tool name without a string conversion) are not values of \<open>post_body\<close>.
\<close>

datatype post_body = Unparseable | Body MCPRequest

record http_reply =
  status :: nat
  payload :: MCPResponse

definition post :: "post_body \<Rightarrow> world \<Rightarrow> transport \<Rightarrow> http_reply \<times> world \<times> transport" where
  "post body w t =
     (case body of
        Unparseable \<Rightarrow>
          (\<lparr>status = 400,
            payload = \<lparr>res_jsonrpc = ''2.0'', res_id = IdNull, res_result = None,
                       res_error = Some \<lparr>code = - 32700, message = ''Parse error'', data = None\<rparr>\<rparr>\<rparr>,
           w, t)
      | Body request \<Rightarrow>
          (case handleRequest w request of
             (response, w1) \<Rightarrow> (\<lparr>status = 200, payload = response\<rparr>, w1, broadcast response t)))"

section \<open>Readings and scenarios\<close>

text \<open>The code of the error a response carries, if it carries one.\<close>

definition errorCode :: "MCPResponse \<Rightarrow> int option" where
  "errorCode r = map_option code (res_error r)"

text \<open>Arguments that name no field at all, a world with one workspace folder, and a call.\<close>

definition noArgs :: tool_args where
  "noArgs = \<lparr>arg_path = None, arg_line = None, arg_condition = None, arg_expression = None,
     arg_frameId = None, arg_configName = None, arg_type = None, arg_threadId = None\<rparr>"

definition unsupportedSession :: debug_session where
  "unsupportedSession =
     \<lparr>session_id = ''1'', session_name = ''Launch Program'', session_type = ''node'',
      customRequest = (\<lambda>r. Inl (Err ''Error'' ''not supported''))\<rparr>"

definition emptyWorld :: world where
  "emptyWorld =
     \<lparr>debug_breakpoints = [], debug_activeDebugSession = None,
      workspace_workspaceFolders = Some [''/ws''], launchFiles = (\<lambda>p. NoLaunchFile),
      settingsConfigurations = [], hostStart = (\<lambda>c. Inr None), hostStop = None,
      engineText = (\<lambda>f. ''TypeError''), cwd = ''/'', facadeCalls = [], adapterLog = []\<rparr>"

definition toolCall :: "string \<Rightarrow> json_id \<Rightarrow> string \<Rightarrow> tool_args \<Rightarrow> MCPRequest" where
  "toolCall version i nm a =
     \<lparr>req_jsonrpc = Some version, req_id = i, req_method = Some ''tools/call'',
      req_params = Some \<lparr>name = Some nm, arguments = Some a\<rparr>\<rparr>"

text \<open>The operation of DebuggerTools each case of the switch calls first.\<close>

definition dispatched :: "(string \<times> facade_op) list" where
  "dispatched =
     [(''set_breakpoint'', SetBreakpoint), (''remove_breakpoint'', RemoveBreakpoint),
      (''evaluate_expression'', EvaluateExpression),
      (''list_debug_configurations'', ListDebugConfigurations),
      (''start_debugging'', StartDebugging), (''stop_debugging'', StopDebugging),
      (''get_debug_status'', GetDebugStatus), (''step_debugger'', StepDebugger)]"

text \<open>A world whose active session answers every request with "not supported".\<close>

definition unsupportedWorld :: world where
  "unsupportedWorld = emptyWorld\<lparr>debug_activeDebugSession := Some unsupportedSession\<rparr>"

text \<open>
  The threads a response lists for the snapshot, the synthetic thread standing in for an
  empty or missing list; and the frames of a stack trace response with their paths made
  relative.
\<close>

definition listedThreads :: "dap_response \<Rightarrow> thread list" where
  "listedThreads response =
     (case response of
        ThreadsResponse (Some (th # ths)) \<Rightarrow> th # ths
      | _ \<Rightarrow> [mainThread])"

definition tracedFrames :: "world \<Rightarrow> js_exn + dap_response \<Rightarrow> stack_frame list option" where
  "tracedFrames w answer =
     (case answer of
        Inr (StackTraceResponse (Some fs)) \<Rightarrow> Some (map (relativeFrame w) fs)
      | _ \<Rightarrow> None)"

text \<open>
  A session that cannot list threads, but is paused and hands out the stack of thread 1.
\<close>

definition pausedFrame :: stack_frame where
  "pausedFrame =
     \<lparr>frame_id = 1, frame_name = ''myFunction'',
      frame_source = Some \<lparr>source_path = Some ''/ws/src/index.js'', source_name = Some ''index.js''\<rparr>,
      frame_line = 42, frame_column = 5\<rparr>"

definition threadlessSession :: debug_session where
  "threadlessSession =
     \<lparr>session_id = ''2'', session_name = ''Attach'', session_type = ''custom'',
      customRequest = (\<lambda>r. case r of
                            StackTrace tid startFrame levels \<Rightarrow> Inr (StackTraceResponse (Some [pausedFrame]))
                          | _ \<Rightarrow> Inl (Err ''Error'' ''not supported''))\<rparr>"

definition threadlessWorld :: world where
  "threadlessWorld = emptyWorld\<lparr>debug_activeDebugSession := Some threadlessSession\<rparr>"

text \<open>A session that lists no thread and is paused, and one that lists a thread and runs.\<close>

definition emptyListSession :: debug_session where
  "emptyListSession =
     \<lparr>session_id = ''3'', session_name = ''Launch'', session_type = ''node'',
      customRequest = (\<lambda>r. case r of
                            Threads \<Rightarrow> Inr (ThreadsResponse (Some []))
                          | StackTrace tid startFrame levels \<Rightarrow> Inr (StackTraceResponse (Some [pausedFrame]))
                          | _ \<Rightarrow> Inr NoBody)\<rparr>"

definition runningSession :: debug_session where
  "runningSession =
     \<lparr>session_id = ''4'', session_name = ''Launch'', session_type = ''node'',
      customRequest = (\<lambda>r. case r of
                            Threads \<Rightarrow> Inr (ThreadsResponse (Some [\<lparr>thread_id = 7, thread_name = ''worker''\<rparr>]))
                          | StackTrace tid startFrame levels \<Rightarrow> Inl (Err ''Error'' ''Thread is not paused'')
                          | _ \<Rightarrow> Inr NoBody)\<rparr>"

definition emptyListWorld :: world where
  "emptyListWorld = emptyWorld\<lparr>debug_activeDebugSession := Some emptyListSession\<rparr>"

definition runningWorld :: world where
  "runningWorld = emptyWorld\<lparr>debug_activeDebugSession := Some runningSession\<rparr>"

text \<open>Three open channels, the second of which throws on every write.\<close>

definition threeListeners :: transport where
  "threeListeners = \<lparr>clients = [1, 2, 3], broken = (\<lambda>c. c = 2), written = []\<rparr>"

text \<open>
  A plain path segment is a name: not empty, without a separator, and neither \<open>.\<close> nor
  \<open>..\<close>. \<open>absolute segs\<close> is the normalised absolute path with these segments, the
  form in which the host reports the path of a workspace folder or of a file.
\<close>

definition plain :: "string \<Rightarrow> bool" where
  "plain s = (s \<noteq> [] \<and> CHR ''/'' \<notin> set s \<and> s \<noteq> ''.'' \<and> s \<noteq> ''..'')"

definition absolute :: "string list \<Rightarrow> string" where
  "absolute segs = ''/'' @ join_with ''/'' segs"

text \<open>The arguments \<open>{path: "a.js", line: 10}\<close>.\<close>

definition breakpointArgs :: tool_args where
  "breakpointArgs = noArgs\<lparr>arg_path := Some ''a.js'', arg_line := Some 10\<rparr>"

text \<open>
  The response a tool call with id \<open>i\<close> is to get for the outcome of its operation: the
  result in the text envelope, or the InternalError code -32603 with the message of the
  failure when that is an Error object, and with \<open>Tool execution failed\<close> when it is any
  other thrown value.
\<close>

definition shaped :: "json_id \<Rightarrow> js_exn + tool_result \<Rightarrow> MCPResponse" where
  "shaped i outcome =
     (case outcome of
        Inl (Err n m) \<Rightarrow>
          \<lparr>res_jsonrpc = ''2.0'', res_id = i, res_result = None,
           res_error = Some \<lparr>code = - 32603, message = m, data = None\<rparr>\<rparr>
      | Inl (Thrown s) \<Rightarrow>
          \<lparr>res_jsonrpc = ''2.0'', res_id = i, res_result = None,
           res_error = Some \<lparr>code = - 32603, message = ''Tool execution failed'', data = None\<rparr>\<rparr>
      | Inr r \<Rightarrow>
          \<lparr>res_jsonrpc = ''2.0'', res_id = i, res_result = Some (ToolContent r),
           res_error = None\<rparr>)"

section \<open>Properties of the router\<close>

lemma handleToolsCall_id: "res_id (fst (handleToolsCall w request)) = req_id request"
  by (simp add: handleToolsCall_def Let_def createErrorResponse_def resultResponse_def
      split: option.split sum.split prod.split)

lemma handleToolsCall_one:
  "(res_result (fst (handleToolsCall w request)) = None)
     = (res_error (fst (handleToolsCall w request)) \<noteq> None)"
  by (simp add: handleToolsCall_def Let_def createErrorResponse_def resultResponse_def
      split: option.split sum.split prod.split)

lemma route_invalid:
  "falsy (req_jsonrpc request) \<or> req_jsonrpc request \<noteq> Some ''2.0'' \<Longrightarrow>
   route w request =
     (Inr (createErrorResponse (req_id request) InvalidRequest ''Invalid JSON-RPC version''), w)"
  by (simp add: route_def)

lemma route_valid:
  "req_jsonrpc request = Some ''2.0'' \<Longrightarrow>
   route w request =
     (case req_method request of
        None \<Rightarrow> (Inr (createErrorResponse (req_id request) InvalidRequest ''Method is required''), w)
      | Some m \<Rightarrow>
          if m = [] then
            (Inr (createErrorResponse (req_id request) InvalidRequest ''Method is required''), w)
          else if m = ''initialize'' then (Inr (handleInitialize request), w)
          else if m = ''tools/list'' then (Inr (handleToolsList request), w)
          else if m = ''tools/call'' then
            (case handleToolsCall w request of (r, w1) \<Rightarrow> (Inr r, w1))
          else
            (Inr (createErrorResponse (req_id request) MethodNotFound
                    (''Method '' @ squote @ m @ squote @ '' not found'')), w))"
  by (simp add: route_def falsy_def)

lemma route_id:
  "\<exists>r. fst (route w request) = Inr r \<and> res_id r = req_id request
     \<and> (res_result r = None) = (res_error r \<noteq> None)"
proof (cases "req_jsonrpc request = Some ''2.0''")
  case False
  then show ?thesis
    by (simp add: route_invalid createErrorResponse_def)
next
  case True
  obtain r1 w1 where h: "handleToolsCall w request = (r1, w1)"
    by (cases "handleToolsCall w request")
  have "res_id r1 = req_id request" "(res_result r1 = None) = (res_error r1 \<noteq> None)"
    using handleToolsCall_id [of w request] handleToolsCall_one [of w request] h by simp_all
  then show ?thesis
    by (simp add: route_valid [OF True] h handleInitialize_def handleToolsList_def
        createErrorResponse_def resultResponse_def split: option.split)
qed

text \<open>
  On the requests of \<open>MCPRequest\<close> (a wrong version, no method, no params, an unknown tool,
  a tool that fails), \<open>handleRequest\<close> returns one response; its id is the id of the request,
  and it carries a result and no error, or an error and no result. This is what C1 asks, on
  those requests only. The source does not keep it on every JSON body: a tool name whose
  string conversion throws makes \<open>handleToolsCall\<close> reject before its try block, the
  rejection passes the catch of \<open>handleRequest\<close>, which returned the promise without awaiting
  it, and the transport answers with status 500 and id null.
\<close>

lemma one_response:
  "res_id (fst (handleRequest w request)) = req_id request \<and>
   ((\<exists>r. res_result (fst (handleRequest w request)) = Some r
          \<and> res_error (fst (handleRequest w request)) = None)
    \<or> (\<exists>e. res_error (fst (handleRequest w request)) = Some e
          \<and> res_result (fst (handleRequest w request)) = None))"
proof -
  from route_id [of w request] show ?thesis
  proof (elim exE conjE)
    fix r
    assume r: "fst (route w request) = Inr r" "res_id r = req_id request"
      "(res_result r = None) = (res_error r \<noteq> None)"
    have h: "fst (handleRequest w request) = r"
      using r(1) by (cases "route w request") (simp add: handleRequest_def)
    have "(\<exists>x. res_result r = Some x \<and> res_error r = None)
        \<or> (\<exists>e. res_error r = Some e \<and> res_result r = None)"
      using r(3) by (cases "res_result r"; cases "res_error r") simp_all
    then show ?thesis
      unfolding h using r(2) by simp
  qed
qed

text \<open>
  C3. A request whose version field is not the literal \<open>2.0\<close> (a missing field included) is
  answered with the InvalidRequest error, code -32600, and the world is left as it was: no
  operation of DebuggerTools is entered and no request reaches the debug adapter.
\<close>

theorem version_rejected:
  "req_jsonrpc request \<noteq> Some ''2.0'' \<Longrightarrow>
     handleRequest w request =
       (\<lparr>res_jsonrpc = ''2.0'', res_id = req_id request, res_result = None,
         res_error = Some \<lparr>code = - 32600, message = ''Invalid JSON-RPC version'',
                           data = None\<rparr>\<rparr>, w)"
  by (simp add: handleRequest_def route_def createErrorResponse_def InvalidRequest_def)

theorem version_rejected_witness:
  "handleRequest (emptyWorld\<lparr>debug_activeDebugSession := Some unsupportedSession\<rparr>)
       (toolCall ''1.0'' (IdNumber 7) ''stop_debugging'' noArgs) =
     (\<lparr>res_jsonrpc = ''2.0'', res_id = IdNumber 7, res_result = None,
       res_error = Some \<lparr>code = - 32600, message = ''Invalid JSON-RPC version'',
                         data = None\<rparr>\<rparr>,
      emptyWorld\<lparr>debug_activeDebugSession := Some unsupportedSession\<rparr>)"
proof -
  have "req_jsonrpc (toolCall ''1.0'' (IdNumber 7) ''stop_debugging'' noArgs) \<noteq> Some ''2.0''"
    by (simp add: toolCall_def)
  from version_rejected [OF this] show ?thesis
    by (simp add: toolCall_def)
qed

lemma tool_names:
  "map tool_name tools = [''set_breakpoint'', ''remove_breakpoint'', ''evaluate_expression'',
     ''list_debug_configurations'', ''start_debugging'', ''stop_debugging'', ''get_debug_status'',
     ''step_debugger'']"
  by (simp add: tools_def)

lemma find_tool: "(find (\<lambda>t. tool_name t = nm) tools \<noteq> None) = (nm \<in> set (map tool_name tools))"
  by (auto simp: find_None_iff)

lemma known_tool:
  "(nm \<in> set (map tool_name tools)) =
     (nm = ''set_breakpoint'' \<or> nm = ''remove_breakpoint'' \<or> nm = ''evaluate_expression''
      \<or> nm = ''list_debug_configurations'' \<or> nm = ''start_debugging''
      \<or> nm = ''stop_debugging'' \<or> nm = ''get_debug_status'' \<or> nm = ''step_debugger'')"
  by (simp add: tool_names)

lemma invoke_known:
  assumes "nm \<in> set (map tool_name tools)"
  shows "fst (invoke w nm args) \<noteq> Inr None"
proof -
  from assms have "nm = ''set_breakpoint'' \<or> nm = ''remove_breakpoint'' \<or> nm = ''evaluate_expression''
      \<or> nm = ''list_debug_configurations'' \<or> nm = ''start_debugging''
      \<or> nm = ''stop_debugging'' \<or> nm = ''get_debug_status'' \<or> nm = ''step_debugger''"
    by (simp only: known_tool)
  then show ?thesis
    by (elim disjE) (simp_all add: invoke_def split: prod.split sum.split)
qed

lemma handleToolsCall_known:
  assumes "req_params request = Some p" "name p = Some nm" "nm \<in> set (map tool_name tools)"
  shows "handleToolsCall w request =
     (case invoke w nm (arguments p) of
        (Inl e, w1) \<Rightarrow>
          (createErrorResponse (req_id request) InternalError (message_or ''Tool execution failed'' e), w1)
      | (Inr None, w1) \<Rightarrow>
          (createErrorResponse (req_id request) MethodNotFound
             (''Tool '' @ squote @ nm @ squote @ '' not implemented''), w1)
      | (Inr (Some r), w1) \<Rightarrow> (resultResponse (req_id request) (ToolContent r), w1))"
proof -
  have "nm \<noteq> []"
    using assms(3) unfolding known_tool by (elim disjE) simp_all
  moreover obtain tool where "find (\<lambda>t. tool_name t = nm) tools = Some tool"
    using find_tool [of nm] assms(3) by auto
  ultimately show ?thesis
    using assms(1,2) by (simp add: handleToolsCall_def)
qed

lemma handleToolsCall_unknown:
  assumes "\<not> (\<exists>p nm. req_params request = Some p \<and> name p = Some nm \<and> nm \<in> set (map tool_name tools))"
  shows "errorCode (fst (handleToolsCall w request)) = Some InvalidParams"
proof -
  have "\<And>nm. nm \<notin> set (map tool_name tools) \<Longrightarrow> find (\<lambda>t. tool_name t = nm) tools = None"
    using find_tool by blast
  then show ?thesis
    using assms
    by (auto simp: handleToolsCall_def Let_def errorCode_def createErrorResponse_def
        split: option.split)
qed

text \<open>
  C10. A tool name of the registry always reaches one of the eight cases of the switch,
  never its default branch; so a tools/call request is never answered with the
  MethodNotFound code -32601.
\<close>

theorem dispatch_total:
  "(nm \<in> set (map tool_name tools) \<longrightarrow> fst (invoke w nm args) \<noteq> Inr None) \<and>
   errorCode (fst (handleToolsCall w request)) \<noteq> Some (- 32601)"
proof
  show "nm \<in> set (map tool_name tools) \<longrightarrow> fst (invoke w nm args) \<noteq> Inr None"
    using invoke_known by simp
next
  show "errorCode (fst (handleToolsCall w request)) \<noteq> Some (- 32601)"
  proof (cases "\<exists>p nm. req_params request = Some p \<and> name p = Some nm \<and> nm \<in> set (map tool_name tools)")
    case False
    then show ?thesis
      using handleToolsCall_unknown [of request w] by (simp add: InvalidParams_def)
  next
    case True
    then obtain p nm where k: "req_params request = Some p" "name p = Some nm"
      "nm \<in> set (map tool_name tools)"
      by auto
    obtain r w1 where i: "invoke w nm (arguments p) = (r, w1)"
      by (cases "invoke w nm (arguments p)")
    have "r \<noteq> Inr None"
      using invoke_known [OF k(3), of w "arguments p"] i by simp
    then show ?thesis
      unfolding handleToolsCall_known [OF k] i
      by (cases r) (auto simp: errorCode_def createErrorResponse_def resultResponse_def
          InternalError_def)
  qed
qed

theorem dispatch_total_witness:
  "fst (invoke emptyWorld ''step_debugger'' (Some noArgs)) \<noteq> Inr None \<and>
   errorCode (fst (handleToolsCall emptyWorld (toolCall ''2.0'' (IdNumber 1) ''step_debugger'' noArgs)))
     \<noteq> Some (- 32601)"
proof -
  have "''step_debugger'' \<in> set (map tool_name tools)"
    by (simp add: tools_def)
  with dispatch_total [of "''step_debugger''" emptyWorld "Some noArgs"
      "toolCall ''2.0'' (IdNumber 1) ''step_debugger'' noArgs"]
  show ?thesis by simp
qed

section \<open>What the operations enter and send\<close>

lemma sendRequest_facadeCalls: "facadeCalls (snd (sendRequest s r w)) = facadeCalls w"
  by (simp add: sendRequest_def)

lemma sendRequest_adapterLog: "adapterLog (snd (sendRequest s r w)) = adapterLog w @ [r]"
  by (simp add: sendRequest_def)

lemma setBreakpoint_calls:
  "facadeCalls (snd (setBreakpoint w args)) = facadeCalls w @ [SetBreakpoint]"
  by (simp add: setBreakpoint_def entered_def Let_def split: option.split sum.split)

lemma removeBreakpoint_calls:
  "facadeCalls (snd (removeBreakpoint w args)) = facadeCalls w @ [RemoveBreakpoint]"
  by (simp add: removeBreakpoint_def entered_def Let_def split: option.split sum.split)

lemma evaluateExpression_calls:
  "facadeCalls (snd (evaluateExpression w args)) = facadeCalls w @ [EvaluateExpression]"
  by (simp add: evaluateExpression_def entered_def Let_def sendRequest_def
      split: option.split sum.split prod.split)

lemma listDebugConfigurations_calls:
  "facadeCalls (snd (listDebugConfigurations w)) = facadeCalls w @ [ListDebugConfigurations]"
  by (simp add: listDebugConfigurations_def entered_def Let_def split: option.split list.split)

lemma launch_calls: "facadeCalls (snd (launch w c)) = facadeCalls w"
  by (simp add: launch_def split: option.split sum.split)

lemma startDebugging_calls:
  "facadeCalls (snd (startDebugging w n)) = facadeCalls w @ [StartDebugging, ListDebugConfigurations]"
proof -
  obtain cs w1 where l: "listDebugConfigurations (entered StartDebugging w) = (cs, w1)"
    by (cases "listDebugConfigurations (entered StartDebugging w)")
  have "facadeCalls w1 = facadeCalls w @ [StartDebugging, ListDebugConfigurations]"
    using listDebugConfigurations_calls [of "entered StartDebugging w"] l
    by (simp add: entered_def)
  then show ?thesis
    by (simp add: startDebugging_def l launch_calls split: option.split list.split)
qed

lemma stopDebugging_calls:
  "facadeCalls (snd (stopDebugging w)) = facadeCalls w @ [StopDebugging]"
  by (simp add: stopDebugging_def entered_def Let_def split: option.split)

lemma stackTraceOf_calls: "facadeCalls (snd (stackTraceOf w s tid)) = facadeCalls w"
  by (simp add: stackTraceOf_def sendRequest_def split: sum.split)

lemma getDebugStatus_calls:
  "facadeCalls (snd (getDebugStatus w)) = facadeCalls w @ [GetDebugStatus]"
  by (simp add: getDebugStatus_def entered_def Let_def sendRequest_def stackTraceOf_def
      split: option.split sum.split prod.split)

lemma activeThread_calls: "facadeCalls (snd (activeThread w s)) = facadeCalls w"
  by (simp add: activeThread_def sendRequest_def split: sum.split option.split list.split)

lemma activeThread_adapterLog: "adapterLog (snd (activeThread w s)) = adapterLog w @ [Threads]"
  by (simp add: activeThread_def sendRequest_def split: sum.split option.split list.split)

lemma issue_calls: "facadeCalls (snd (issue s r w)) = facadeCalls w"
  by (simp add: issue_def sendRequest_def split: sum.split)

lemma stepDebugger_calls:
  "facadeCalls (snd (stepDebugger w args)) = facadeCalls w @ [StepDebugger]"
proof -
  define w0 where "w0 = entered StepDebugger w"
  have e: "facadeCalls w0 = facadeCalls w @ [StepDebugger]"
    by (simp add: w0_def entered_def)
  show ?thesis
  proof (cases "debug_activeDebugSession w0")
    case None
    then show ?thesis
      using e by (simp add: stepDebugger_def Let_def w0_def [symmetric])
  next
    case session: (Some s)
    show ?thesis
    proof (cases args)
      case None
      then show ?thesis
        using e session by (simp add: stepDebugger_def Let_def w0_def [symmetric])
    next
      case (Some a)
      obtain t w1 where t: "(case arg_threadId a of
                          None \<Rightarrow> activeThread w0 s
                        | Some t \<Rightarrow> if t = 0 then activeThread w0 s else (t, w0)) = (t, w1)"
        by (cases "(case arg_threadId a of
                          None \<Rightarrow> activeThread w0 s
                        | Some t \<Rightarrow> if t = 0 then activeThread w0 s else (t, w0))")
      have "facadeCalls w1 = facadeCalls w0"
      proof (cases "arg_threadId a = None \<or> arg_threadId a = Some 0")
        case True
        then have "activeThread w0 s = (t, w1)"
          using t by (cases "arg_threadId a") simp_all
        then show ?thesis
          using activeThread_calls [of w0 s] by simp
      next
        case False
        then have "(t, w0) = (t, w1)"
          using t by (cases "arg_threadId a") simp_all
        then show ?thesis by simp
      qed
      then show ?thesis
        using e session Some t
        by (simp add: stepDebugger_def Let_def w0_def [symmetric] issue_calls)
    qed
  qed
qed

lemma invoke_world:
  "snd (invoke w ''set_breakpoint'' args) = snd (setBreakpoint w args)"
  "snd (invoke w ''remove_breakpoint'' args) = snd (removeBreakpoint w args)"
  "snd (invoke w ''evaluate_expression'' args) = snd (evaluateExpression w args)"
  "snd (invoke w ''list_debug_configurations'' args) = snd (listDebugConfigurations w)"
  "snd (invoke w ''start_debugging'' args) =
     snd (startDebugging w (case args of None \<Rightarrow> None | Some a \<Rightarrow> arg_configName a))"
  "snd (invoke w ''stop_debugging'' args) = snd (stopDebugging w)"
  "snd (invoke w ''get_debug_status'' args) = snd (getDebugStatus w)"
  "snd (invoke w ''step_debugger'' args) = snd (stepDebugger w args)"
  by (simp_all add: invoke_def split: prod.split sum.split)

lemma invoke_calls:
  assumes "(nm, op) \<in> set dispatched"
  shows "\<exists>rest. facadeCalls (snd (invoke w nm args)) = facadeCalls w @ op # rest"
proof -
  from assms have
    "nm = ''set_breakpoint'' \<and> op = SetBreakpoint
     \<or> nm = ''remove_breakpoint'' \<and> op = RemoveBreakpoint
     \<or> nm = ''evaluate_expression'' \<and> op = EvaluateExpression
     \<or> nm = ''list_debug_configurations'' \<and> op = ListDebugConfigurations
     \<or> nm = ''start_debugging'' \<and> op = StartDebugging
     \<or> nm = ''stop_debugging'' \<and> op = StopDebugging
     \<or> nm = ''get_debug_status'' \<and> op = GetDebugStatus
     \<or> nm = ''step_debugger'' \<and> op = StepDebugger"
    by (simp add: dispatched_def)
  then show ?thesis
    by (elim disjE conjE)
      (simp_all add: invoke_world setBreakpoint_calls removeBreakpoint_calls
        evaluateExpression_calls listDebugConfigurations_calls startDebugging_calls
        stopDebugging_calls getDebugStatus_calls stepDebugger_calls)
qed

lemma dispatched_names: "map fst dispatched = map tool_name tools"
  by (simp add: dispatched_def tools_def)

lemma shaped_failure:
  "createErrorResponse i InternalError (message_or ''Tool execution failed'' e) = shaped i (Inl e)"
  by (cases e) (simp_all add: shaped_def createErrorResponse_def InternalError_def)

lemma shaped_result: "resultResponse i (ToolContent r) = shaped i (Inr r)"
  by (simp add: shaped_def resultResponse_def)

lemma handleToolsCall_shaped:
  assumes "req_params request = Some p" and "name p = Some nm"
  shows "nm = ''set_breakpoint'' \<longrightarrow>
           handleToolsCall w request =
             (case setBreakpoint w (arguments p) of
                (r, w1) \<Rightarrow> (shaped (req_id request)
                               (case r of Inl e \<Rightarrow> Inl e
                                | Inr bp \<Rightarrow> breakpointResult w1 (arguments p) bp), w1))"
    and "nm = ''remove_breakpoint'' \<longrightarrow>
           handleToolsCall w request =
             (case removeBreakpoint w (arguments p) of
                (r, w1) \<Rightarrow> (shaped (req_id request) (map_sum id (\<lambda>u. SuccessResult) r), w1))"
    and "nm = ''evaluate_expression'' \<longrightarrow>
           handleToolsCall w request =
             (case evaluateExpression w (arguments p) of
                (r, w1) \<Rightarrow> (shaped (req_id request) (map_sum id EvaluateResult r), w1))"
    and "nm = ''list_debug_configurations'' \<longrightarrow>
           handleToolsCall w request =
             (case listDebugConfigurations w of
                (cs, w1) \<Rightarrow> (shaped (req_id request) (Inr (ConfigurationsResult cs)), w1))"
    and "nm = ''start_debugging'' \<longrightarrow>
           handleToolsCall w request =
             (case startDebugging w (case arguments p of None \<Rightarrow> None | Some a \<Rightarrow> arg_configName a) of
                (r, w1) \<Rightarrow> (shaped (req_id request) (map_sum id (\<lambda>u. SuccessResult) r), w1))"
    and "nm = ''stop_debugging'' \<longrightarrow>
           handleToolsCall w request =
             (case stopDebugging w of
                (r, w1) \<Rightarrow> (shaped (req_id request) (map_sum id (\<lambda>u. SuccessResult) r), w1))"
    and "nm = ''get_debug_status'' \<longrightarrow>
           handleToolsCall w request =
             (case getDebugStatus w of
                (r, w1) \<Rightarrow> (shaped (req_id request) (map_sum id StatusResult r), w1))"
    and "nm = ''step_debugger'' \<longrightarrow>
           handleToolsCall w request =
             (case stepDebugger w (arguments p) of
                (r, w1) \<Rightarrow> (shaped (req_id request) (map_sum id (\<lambda>u. SuccessResult) r), w1))"
  using assms
  by (simp_all add: handleToolsCall_def tools_def invoke_def shaped_failure shaped_result
      split: prod.split sum.split)

text \<open>
  C2, as the code has it. The router checks no argument against the \<open>required\<close> list of a
  tool. A tools/call request that names a tool of the registry enters the operation of
  DebuggerTools for that tool, and the operation is called with the arguments of the request
  exactly as they came, whatever they hold or omit (\<open>start_debugging\<close> with their
  \<open>configName\<close>; the three operations without parameters with none). The reply is the
  outcome of that call and nothing else: the result of the operation in the text envelope,
  or the InternalError code -32603 with the message of the Error object the operation threw,
  and with \<open>Tool execution failed\<close> when what it threw is not an Error object. So the reply
  never carries -32602, which is left to a missing or unknown tool name.
\<close>

theorem arguments_unchecked:
  assumes "req_params request = Some p" and "name p = Some nm" and "(nm, op) \<in> set dispatched"
  shows "map fst dispatched = map tool_name tools \<and>
         (\<exists>rest. facadeCalls (snd (handleToolsCall w request)) = facadeCalls w @ op # rest) \<and>
         (errorCode (fst (handleToolsCall w request)) = None
            \<or> errorCode (fst (handleToolsCall w request)) = Some (- 32603)) \<and>
         (nm = ''set_breakpoint'' \<longrightarrow>
            handleToolsCall w request =
              (case setBreakpoint w (arguments p) of
                 (r, w1) \<Rightarrow> (shaped (req_id request)
                                (case r of Inl e \<Rightarrow> Inl e
                                 | Inr bp \<Rightarrow> breakpointResult w1 (arguments p) bp), w1))) \<and>
         (nm = ''remove_breakpoint'' \<longrightarrow>
            handleToolsCall w request =
              (case removeBreakpoint w (arguments p) of
                 (r, w1) \<Rightarrow> (shaped (req_id request) (map_sum id (\<lambda>u. SuccessResult) r), w1))) \<and>
         (nm = ''evaluate_expression'' \<longrightarrow>
            handleToolsCall w request =
              (case evaluateExpression w (arguments p) of
                 (r, w1) \<Rightarrow> (shaped (req_id request) (map_sum id EvaluateResult r), w1))) \<and>
         (nm = ''list_debug_configurations'' \<longrightarrow>
            handleToolsCall w request =
              (case listDebugConfigurations w of
                 (cs, w1) \<Rightarrow> (shaped (req_id request) (Inr (ConfigurationsResult cs)), w1))) \<and>
         (nm = ''start_debugging'' \<longrightarrow>
            handleToolsCall w request =
              (case startDebugging w (case arguments p of None \<Rightarrow> None | Some a \<Rightarrow> arg_configName a) of
                 (r, w1) \<Rightarrow> (shaped (req_id request) (map_sum id (\<lambda>u. SuccessResult) r), w1))) \<and>
         (nm = ''stop_debugging'' \<longrightarrow>
            handleToolsCall w request =
              (case stopDebugging w of
                 (r, w1) \<Rightarrow> (shaped (req_id request) (map_sum id (\<lambda>u. SuccessResult) r), w1))) \<and>
         (nm = ''get_debug_status'' \<longrightarrow>
            handleToolsCall w request =
              (case getDebugStatus w of
                 (r, w1) \<Rightarrow> (shaped (req_id request) (map_sum id StatusResult r), w1))) \<and>
         (nm = ''step_debugger'' \<longrightarrow>
            handleToolsCall w request =
              (case stepDebugger w (arguments p) of
                 (r, w1) \<Rightarrow> (shaped (req_id request) (map_sum id (\<lambda>u. SuccessResult) r), w1)))"
proof -
  have known: "nm \<in> set (map tool_name tools)"
    using assms(3) dispatched_names by (metis fst_conv image_eqI set_map)
  obtain r w1 where i: "invoke w nm (arguments p) = (r, w1)"
    by (cases "invoke w nm (arguments p)")
  have r: "r \<noteq> Inr None"
    using invoke_known [OF known, of w "arguments p"] i by simp
  have calls: "\<exists>rest. facadeCalls w1 = facadeCalls w @ op # rest"
    using invoke_calls [OF assms(3), of w "arguments p"] i by simp
  have h: "handleToolsCall w request =
     (case r of
        Inl e \<Rightarrow>
          (createErrorResponse (req_id request) InternalError (message_or ''Tool execution failed'' e), w1)
      | Inr None \<Rightarrow>
          (createErrorResponse (req_id request) MethodNotFound
             (''Tool '' @ squote @ nm @ squote @ '' not implemented''), w1)
      | Inr (Some res) \<Rightarrow> (resultResponse (req_id request) (ToolContent res), w1))"
    unfolding handleToolsCall_known [OF assms(1,2) known] i by simp
  have world: "snd (handleToolsCall w request) = w1"
    unfolding h by (simp split: sum.split option.split)
  have code: "errorCode (fst (handleToolsCall w request)) = None
            \<or> errorCode (fst (handleToolsCall w request)) = Some (- 32603)"
  proof (cases r)
    case (Inl e)
    then show ?thesis
      unfolding h by (simp add: errorCode_def createErrorResponse_def InternalError_def)
  next
    case (Inr b)
    with r obtain res where "b = Some res"
      by (cases b) simp_all
    with Inr show ?thesis
      unfolding h by (simp add: errorCode_def resultResponse_def)
  qed
  note each = handleToolsCall_shaped [OF assms(1,2), of w]
  show ?thesis
    apply (intro conjI)
              apply (rule dispatched_names)
    using calls world apply simp
            apply (rule code)
           apply (rule each(1))
          apply (rule each(2))
         apply (rule each(3))
        apply (rule each(4))
       apply (rule each(5))
      apply (rule each(6))
     apply (rule each(7))
    apply (rule each(8))
    done
qed

theorem arguments_unchecked_witness:
  "fst (handleToolsCall emptyWorld (toolCall ''2.0'' (IdNumber 1) ''set_breakpoint'' breakpointArgs)) =
     \<lparr>res_jsonrpc = ''2.0'', res_id = IdNumber 1,
      res_result = Some (ToolContent (BreakpointResult (Some ''a.js'') (Some 10) True None)),
      res_error = None\<rparr> \<and>
   debug_breakpoints (snd (handleToolsCall emptyWorld
       (toolCall ''2.0'' (IdNumber 1) ''set_breakpoint'' breakpointArgs))) =
     [SourceBreakpoint ''/ws/a.js'' (Some 9) True None] \<and>
   facadeCalls (snd (handleToolsCall emptyWorld
       (toolCall ''2.0'' (IdNumber 1) ''set_breakpoint'' breakpointArgs))) = [SetBreakpoint]"
proof -
  have d: "(''set_breakpoint'', SetBreakpoint) \<in> set dispatched"
    by (simp add: dispatched_def)
  have call: "handleToolsCall emptyWorld (toolCall ''2.0'' (IdNumber 1) ''set_breakpoint'' breakpointArgs) =
      (case setBreakpoint emptyWorld (Some breakpointArgs) of
         (r, w1) \<Rightarrow> (shaped (IdNumber 1)
                        (case r of Inl e \<Rightarrow> Inl e
                         | Inr bp \<Rightarrow> breakpointResult w1 (Some breakpointArgs) bp), w1))"
    using arguments_unchecked [OF _ _ d, of "toolCall ''2.0'' (IdNumber 1) ''set_breakpoint'' breakpointArgs"
        "\<lparr>name = Some ''set_breakpoint'', arguments = Some breakpointArgs\<rparr>" emptyWorld]
    by (simp add: toolCall_def cong: prod.case_cong sum.case_cong)
  have reply: "fst (case setBreakpoint emptyWorld (Some breakpointArgs) of
         (r, w1) \<Rightarrow> (shaped (IdNumber 1)
                        (case r of Inl e \<Rightarrow> Inl e
                         | Inr bp \<Rightarrow> breakpointResult w1 (Some breakpointArgs) bp), w1)) =
     \<lparr>res_jsonrpc = ''2.0'', res_id = IdNumber 1,
      res_result = Some (ToolContent (BreakpointResult (Some ''a.js'') (Some 10) True None)),
      res_error = None\<rparr>"
    by code_simp
  have store: "debug_breakpoints (snd (case setBreakpoint emptyWorld (Some breakpointArgs) of
         (r, w1) \<Rightarrow> (shaped (IdNumber 1)
                        (case r of Inl e \<Rightarrow> Inl e
                         | Inr bp \<Rightarrow> breakpointResult w1 (Some breakpointArgs) bp), w1))) =
     [SourceBreakpoint ''/ws/a.js'' (Some 9) True None]"
    by code_simp
  have entry: "facadeCalls (snd (case setBreakpoint emptyWorld (Some breakpointArgs) of
         (r, w1) \<Rightarrow> (shaped (IdNumber 1)
                        (case r of Inl e \<Rightarrow> Inl e
                         | Inr bp \<Rightarrow> breakpointResult w1 (Some breakpointArgs) bp), w1))) =
     [SetBreakpoint]"
    by code_simp
  show ?thesis
    unfolding call using reply store entry by simp
qed

text \<open>
  The claim of C2 fails on the code: \<open>step_debugger\<close> declares \<open>type\<close> required and
  \<open>evaluate_expression\<close> declares \<open>expression\<close> required, yet calls without them enter the
  operation, reach the debug adapter, and come back as -32603.
\<close>

theorem required_not_enforced:
  "tool_name (tools ! 7) = ''step_debugger'' \<and> required (tools ! 7) = Some [''type''] \<and>
   arg_type noArgs = None \<and>
   fst (handleRequest unsupportedWorld (toolCall ''2.0'' (IdNumber 1) ''step_debugger'' noArgs)) =
     createErrorResponse (IdNumber 1) (- 32603) ''Unknown step type: undefined'' \<and>
   facadeCalls (snd (handleRequest unsupportedWorld
       (toolCall ''2.0'' (IdNumber 1) ''step_debugger'' noArgs))) = [StepDebugger] \<and>
   tool_name (tools ! 2) = ''evaluate_expression'' \<and>
   required (tools ! 2) = Some [''expression''] \<and> arg_expression noArgs = None \<and>
   fst (handleRequest unsupportedWorld
       (toolCall ''2.0'' (IdNumber 2) ''evaluate_expression'' noArgs)) =
     createErrorResponse (IdNumber 2) (- 32603)
       ''Failed to evaluate expression: Error: not supported'' \<and>
   facadeCalls (snd (handleRequest unsupportedWorld
       (toolCall ''2.0'' (IdNumber 2) ''evaluate_expression'' noArgs))) = [EvaluateExpression] \<and>
   adapterLog (snd (handleRequest unsupportedWorld
       (toolCall ''2.0'' (IdNumber 2) ''evaluate_expression'' noArgs)))
     = [Evaluate None None ''repl'']"
  by code_simp

section \<open>Stepping\<close>

lemma stepDebugger_unknown:
  assumes session: "debug_activeDebugSession w = Some s"
    and ty: "arg_type a = Some ty"
    and unknown: "ty \<notin> {''stepOver'', ''stepInto'', ''stepOut'', ''continue'', ''pause''}"
  shows "fst (stepDebugger w (Some a)) = Inl (Err ''Error'' (''Unknown step type: '' @ ty))"
    and "adapterLog (snd (stepDebugger w (Some a))) =
           adapterLog w @ (if arg_threadId a = None \<or> arg_threadId a = Some 0 then [Threads] else [])"
proof -
  define w0 where "w0 = entered StepDebugger w"
  have e: "adapterLog w0 = adapterLog w" "debug_activeDebugSession w0 = Some s"
    using session by (simp_all add: w0_def entered_def)
  obtain t w1 where t: "(case arg_threadId a of
                      None \<Rightarrow> activeThread w0 s
                    | Some t \<Rightarrow> if t = 0 then activeThread w0 s else (t, w0)) = (t, w1)"
    by (cases "(case arg_threadId a of
                      None \<Rightarrow> activeThread w0 s
                    | Some t \<Rightarrow> if t = 0 then activeThread w0 s else (t, w0))")
  have step: "stepDebugger w (Some a) = (Inl (Err ''Error'' (''Unknown step type: '' @ ty)), w1)"
    using e(2) t ty unknown
    by (simp add: stepDebugger_def Let_def w0_def [symmetric] typeText_def)
  show "fst (stepDebugger w (Some a)) = Inl (Err ''Error'' (''Unknown step type: '' @ ty))"
    by (simp add: step)
  have "adapterLog w1 =
          adapterLog w0 @ (if arg_threadId a = None \<or> arg_threadId a = Some 0 then [Threads] else [])"
  proof (cases "arg_threadId a = None \<or> arg_threadId a = Some 0")
    case True
    then have "activeThread w0 s = (t, w1)"
      using t by (cases "arg_threadId a") simp_all
    then show ?thesis
      using activeThread_adapterLog [of w0 s] True by simp
  next
    case False
    then have "(t, w0) = (t, w1)"
      using t by (cases "arg_threadId a") simp_all
    then show ?thesis
      using False by simp
  qed
  then show "adapterLog (snd (stepDebugger w (Some a))) =
           adapterLog w @ (if arg_threadId a = None \<or> arg_threadId a = Some 0 then [Threads] else [])"
    by (simp add: step e(1))
qed

lemma handleRequest_toolCall:
  "handleRequest w (toolCall ''2.0'' i nm a) = handleToolsCall w (toolCall ''2.0'' i nm a)"
  by (simp add: handleRequest_def route_def falsy_def toolCall_def split: prod.split)

lemma handleToolsCall_step:
  "handleToolsCall w (toolCall v i ''step_debugger'' a) =
     (case stepDebugger w (Some a) of
        (Inl e, w1) \<Rightarrow> (createErrorResponse i InternalError (message_or ''Tool execution failed'' e), w1)
      | (Inr u, w1) \<Rightarrow> (resultResponse i (ToolContent SuccessResult), w1))"
  by (simp add: handleToolsCall_def toolCall_def tools_def invoke_def
      split: prod.split sum.split)

text \<open>
  C6. With a session active, a \<open>step_debugger\<close> call whose \<open>type\<close> is none of the five
  step types is answered with the InternalError code -32603 and the message
  \<open>Unknown step type: \<close> followed by the type. No step request is sent to the debug adapter:
  the only request the call can add is the thread listing, when no thread id was given. The
  call with \<open>{type: "bogus"}\<close> and id 1 gets exactly the response of the scenario.
\<close>

theorem unknown_step_type:
  assumes "debug_activeDebugSession w = Some s"
    and "arg_type a = Some ty"
    and "ty \<notin> {''stepOver'', ''stepInto'', ''stepOut'', ''continue'', ''pause''}"
  shows "fst (handleRequest w (toolCall ''2.0'' i ''step_debugger'' a)) =
           \<lparr>res_jsonrpc = ''2.0'', res_id = i, res_result = None,
            res_error = Some \<lparr>code = - 32603, message = ''Unknown step type: '' @ ty,
                              data = None\<rparr>\<rparr>
       \<and> adapterLog (snd (handleRequest w (toolCall ''2.0'' i ''step_debugger'' a))) =
           adapterLog w @ (if arg_threadId a = None \<or> arg_threadId a = Some 0 then [Threads] else [])
       \<and> fst (handleRequest w (toolCall ''2.0'' (IdNumber 1) ''step_debugger''
                  (noArgs\<lparr>arg_type := Some ''bogus''\<rparr>))) =
           \<lparr>res_jsonrpc = ''2.0'', res_id = IdNumber 1, res_result = None,
            res_error = Some \<lparr>code = - 32603, message = ''Unknown step type: bogus'',
                              data = None\<rparr>\<rparr>"
proof -
  have general: "fst (handleRequest w (toolCall ''2.0'' j ''step_debugger'' b)) =
           \<lparr>res_jsonrpc = ''2.0'', res_id = j, res_result = None,
            res_error = Some \<lparr>code = - 32603, message = ''Unknown step type: '' @ t,
                              data = None\<rparr>\<rparr>
       \<and> adapterLog (snd (handleRequest w (toolCall ''2.0'' j ''step_debugger'' b))) =
           adapterLog w @ (if arg_threadId b = None \<or> arg_threadId b = Some 0 then [Threads] else [])"
    if "arg_type b = Some t"
      and "t \<notin> {''stepOver'', ''stepInto'', ''stepOut'', ''continue'', ''pause''}"
    for j b t
  proof -
    obtain r w1 where step: "stepDebugger w (Some b) = (r, w1)"
      by (cases "stepDebugger w (Some b)")
    have "r = Inl (Err ''Error'' (''Unknown step type: '' @ t))"
      using stepDebugger_unknown(1) [OF assms(1) that] step by simp
    moreover have "adapterLog w1 =
        adapterLog w @ (if arg_threadId b = None \<or> arg_threadId b = Some 0 then [Threads] else [])"
      using stepDebugger_unknown(2) [OF assms(1) that] step by simp
    ultimately show ?thesis
      by (simp add: handleRequest_toolCall handleToolsCall_step step createErrorResponse_def
          InternalError_def)
  qed
  have "arg_type (noArgs\<lparr>arg_type := Some ''bogus''\<rparr>) = Some ''bogus''"
    by simp
  moreover have "''bogus'' \<notin> {''stepOver'', ''stepInto'', ''stepOut'', ''continue'', ''pause''}"
    by simp
  ultimately show ?thesis
    using general [OF assms(2,3), of i] general [of "noArgs\<lparr>arg_type := Some ''bogus''\<rparr>" "''bogus''" "IdNumber 1"]
    by simp
qed

theorem unknown_step_type_witness:
  "fst (handleRequest unsupportedWorld (toolCall ''2.0'' (IdString ''r7'') ''step_debugger''
          (noArgs\<lparr>arg_type := Some ''stepover'', arg_threadId := Some 4\<rparr>))) =
     \<lparr>res_jsonrpc = ''2.0'', res_id = IdString ''r7'', res_result = None,
      res_error = Some \<lparr>code = - 32603, message = ''Unknown step type: stepover'',
                        data = None\<rparr>\<rparr>
   \<and> adapterLog (snd (handleRequest unsupportedWorld (toolCall ''2.0'' (IdString ''r7'')
          ''step_debugger'' (noArgs\<lparr>arg_type := Some ''stepover'', arg_threadId := Some 4\<rparr>)))) = []
   \<and> fst (handleRequest unsupportedWorld (toolCall ''2.0'' (IdNumber 1) ''step_debugger''
          (noArgs\<lparr>arg_type := Some ''bogus''\<rparr>))) =
     \<lparr>res_jsonrpc = ''2.0'', res_id = IdNumber 1, res_result = None,
      res_error = Some \<lparr>code = - 32603, message = ''Unknown step type: bogus'',
                        data = None\<rparr>\<rparr>"
proof -
  have s: "debug_activeDebugSession unsupportedWorld = Some unsupportedSession"
    by (simp add: unsupportedWorld_def)
  have t: "arg_type (noArgs\<lparr>arg_type := Some ''stepover'', arg_threadId := Some 4\<rparr>) = Some ''stepover''"
    by simp
  have u: "''stepover'' \<notin> {''stepOver'', ''stepInto'', ''stepOut'', ''continue'', ''pause''}"
    by simp
  have l: "adapterLog unsupportedWorld = []"
    by (simp add: unsupportedWorld_def emptyWorld_def)
  from unknown_step_type [OF s t u, of "IdString ''r7''"] show ?thesis
    by (simp add: l)
qed

section \<open>The status snapshot\<close>

lemma getRelativePath_frame:
  "workspace_workspaceFolders w' = workspace_workspaceFolders w \<Longrightarrow> cwd w' = cwd w \<Longrightarrow>
   getRelativePath w' = getRelativePath w"
  by (rule ext) (simp add: getRelativePath_def split: option.split)

lemma descriptors_frame:
  assumes "workspace_workspaceFolders w' = workspace_workspaceFolders w" "cwd w' = cwd w"
    "debug_breakpoints w' = debug_breakpoints w"
  shows "descriptors w' = descriptors w"
proof -
  have "descriptor w' b = descriptor w b" for b
    using getRelativePath_frame [OF assms(1,2)] by (cases b) simp_all
  then have "descriptor w' = descriptor w"
    by (rule ext)
  then show ?thesis
    by (simp add: descriptors_def assms(3))
qed

lemma relativeFrame_frame:
  assumes "workspace_workspaceFolders w' = workspace_workspaceFolders w" "cwd w' = cwd w"
  shows "relativeFrame w' = relativeFrame w"
proof -
  have "relativeSource w' = relativeSource w"
    by (rule ext) (simp add: relativeSource_def getRelativePath_frame [OF assms] split: option.split)
  then show ?thesis
    by (intro ext) (simp add: relativeFrame_def)
qed

lemma getDebugStatus_inactive:
  assumes "debug_activeDebugSession w = None"
  shows "fst (getDebugStatus w) = Inr (snapshot None None None None (descriptors w))"
proof -
  have "descriptors (entered GetDebugStatus w) = descriptors w"
    by (rule descriptors_frame) (simp_all add: entered_def)
  then show ?thesis
    using assms by (simp add: getDebugStatus_def Let_def entered_def)
qed

lemma getDebugStatus_unlisted:
  assumes "debug_activeDebugSession w = Some s"
    and "(\<exists>e. customRequest s Threads = Inl e) \<or> customRequest s Threads = Inr NoBody"
  shows "fst (getDebugStatus w)
           = Inr (snapshot (Some s) (Some [mainThread]) (Some 1) None (descriptors w))"
proof -
  have d: "descriptors (entered GetDebugStatus w) = descriptors w"
    by (rule descriptors_frame) (simp_all add: entered_def)
  have s: "debug_activeDebugSession (entered GetDebugStatus w) = Some s"
    using assms(1) by (simp add: entered_def)
  from assms(2) show ?thesis
  proof
    assume "\<exists>e. customRequest s Threads = Inl e"
    then obtain e where "customRequest s Threads = Inl e" ..
    then show ?thesis
      using d s by (simp add: getDebugStatus_def Let_def sendRequest_def)
  next
    assume "customRequest s Threads = Inr NoBody"
    then show ?thesis
      using d s by (simp add: getDebugStatus_def Let_def sendRequest_def threadsOf_def)
  qed
qed

lemma getDebugStatus_listed:
  assumes "debug_activeDebugSession w = Some s"
    and "customRequest s Threads = Inr response" and "response \<noteq> NoBody"
  shows "fst (getDebugStatus w)
           = Inr (snapshot (Some s) (Some (listedThreads response))
                   (Some (thread_id (hd (listedThreads response))))
                   (tracedFrames w (customRequest s
                      (StackTrace (Some (thread_id (hd (listedThreads response)))) 0 20)))
                   (descriptors w))"
proof -
  define w0 where "w0 = entered GetDebugStatus w"
  define w1 where "w1 = w0\<lparr>adapterLog := adapterLog w0 @ [Threads]\<rparr>"
  have d: "descriptors w0 = descriptors w"
    by (rule descriptors_frame) (simp_all add: w0_def entered_def)
  have s: "debug_activeDebugSession w0 = Some s"
    using assms(1) by (simp add: w0_def entered_def)
  have r: "relativeFrame (w1\<lparr>adapterLog := l\<rparr>) = relativeFrame w" for l
    by (rule relativeFrame_frame) (simp_all add: w1_def w0_def entered_def)
  have send: "sendRequest s Threads w0 = (Inr response, w1)"
    by (simp add: sendRequest_def assms(2) w1_def)
  obtain t where t: "threadsOf w1 response = Inr t"
    and l: "listedThreads response =
              (if (case t of None \<Rightarrow> [] | Some ts \<Rightarrow> ts) = [] then [mainThread]
               else (case t of None \<Rightarrow> [] | Some ts \<Rightarrow> ts))"
    using assms(3)
    by (cases response) (simp_all add: threadsOf_def listedThreads_def split: option.split list.split)
  have frames: "fst (stackTraceOf w1 s tid') = tracedFrames w (customRequest s (StackTrace tid' 0 20))"
    for tid'
    by (simp add: stackTraceOf_def sendRequest_def tracedFrames_def stackFramesOf_def r
        split: sum.split dap_response.split option.split)
  show ?thesis
    using d s send t
    by (simp add: getDebugStatus_def Let_def w0_def [symmetric] l split_beta frames
        split: list.split)
qed

lemma getDebugStatus_unlisted_log:
  assumes "debug_activeDebugSession w = Some s"
    and "(\<exists>e. customRequest s Threads = Inl e) \<or> customRequest s Threads = Inr NoBody"
  shows "adapterLog (snd (getDebugStatus w)) = adapterLog w @ [Threads]"
proof -
  have s: "debug_activeDebugSession (entered GetDebugStatus w) = Some s"
    using assms(1) by (simp add: entered_def)
  from assms(2) show ?thesis
  proof
    assume "\<exists>e. customRequest s Threads = Inl e"
    then obtain e where "customRequest s Threads = Inl e" ..
    then show ?thesis
      using s by (simp add: getDebugStatus_def Let_def sendRequest_def entered_def)
  next
    assume "customRequest s Threads = Inr NoBody"
    then show ?thesis
      using s by (simp add: getDebugStatus_def Let_def sendRequest_def threadsOf_def entered_def)
  qed
qed

lemma getDebugStatus_returns: "\<exists>st. fst (getDebugStatus w) = Inr st"
proof (cases "debug_activeDebugSession w")
  case None
  then show ?thesis
    using getDebugStatus_inactive by simp
next
  case (Some s)
  show ?thesis
  proof (cases "customRequest s Threads")
    case (Inl e)
    then show ?thesis
      using getDebugStatus_unlisted [OF Some] by simp
  next
    case (Inr response)
    then show ?thesis
      using getDebugStatus_unlisted [OF Some] getDebugStatus_listed [OF Some Inr]
      by (cases "response = NoBody") simp_all
  qed
qed

lemma handleToolsCall_status:
  "handleToolsCall w (toolCall v i ''get_debug_status'' a) =
     (case getDebugStatus w of
        (Inl e, w1) \<Rightarrow> (createErrorResponse i InternalError (message_or ''Tool execution failed'' e), w1)
      | (Inr st, w1) \<Rightarrow> (resultResponse i (ToolContent (StatusResult st)), w1))"
  by (simp add: handleToolsCall_def toolCall_def tools_def invoke_def
      split: prod.split sum.split)

lemma status_response:
  assumes "fst (getDebugStatus w) = Inr st"
  shows "fst (handleRequest w (toolCall ''2.0'' i ''get_debug_status'' a))
           = resultResponse i (ToolContent (StatusResult st))"
proof -
  obtain w1 where "getDebugStatus w = (Inr st, w1)"
    using assms by (cases "getDebugStatus w") simp
  then show ?thesis
    by (simp add: handleRequest_toolCall handleToolsCall_status)
qed

text \<open>
  With a session active, when the thread listing does not come back with at least one
  thread (the request fails with a value of \<open>js_exn\<close>, or the list is missing or empty),
  \<open>get_debug_status\<close> still returns a snapshot: it is active, its threads are the one
  synthetic thread \<open>{id: 1, name: "main"}\<close>, its active thread is 1, and the router answers
  with that snapshot as a result and without an error. When the request failed, the snapshot
  is not paused. This is what C4 asks, for the failures \<open>js_exn\<close> holds. The source does not
  keep it for every failure: when the request rejects with null or undefined, the catch arm
  throws on \<open>error.message\<close> after it has set the synthetic thread, and the call is answered
  with the error -32603.
\<close>

lemma synthetic_thread:
  assumes "debug_activeDebugSession w = Some s"
    and "\<forall>th ths. customRequest s Threads \<noteq> Inr (ThreadsResponse (Some (th # ths)))"
  shows "\<exists>st. fst (getDebugStatus w) = Inr st \<and> isActive st
           \<and> threads st = Some [\<lparr>thread_id = 1, thread_name = ''main''\<rparr>]
           \<and> activeThreadId st = Some 1
           \<and> ((\<exists>e. customRequest s Threads = Inl e) \<longrightarrow> \<not> isPaused st)
           \<and> fst (handleRequest w (toolCall ''2.0'' i ''get_debug_status'' a))
               = \<lparr>res_jsonrpc = ''2.0'', res_id = i,
                  res_result = Some (ToolContent (StatusResult st)), res_error = None\<rparr>"
proof (cases "(\<exists>e. customRequest s Threads = Inl e) \<or> customRequest s Threads = Inr NoBody")
  case True
  have st: "fst (getDebugStatus w)
           = Inr (snapshot (Some s) (Some [mainThread]) (Some 1) None (descriptors w))"
    by (rule getDebugStatus_unlisted [OF assms(1) True])
  show ?thesis
    using st status_response [OF st, of i a]
    by (simp add: snapshot_def mainThread_def resultResponse_def)
next
  case False
  then obtain response where r: "customRequest s Threads = Inr response" "response \<noteq> NoBody"
    by (cases "customRequest s Threads") simp_all
  have l: "listedThreads response = [mainThread]"
    using assms(2) r(1)
    by (simp add: listedThreads_def split: dap_response.split option.split list.split)
  have st: "fst (getDebugStatus w)
           = Inr (snapshot (Some s) (Some [mainThread]) (Some 1)
                   (tracedFrames w (customRequest s (StackTrace (Some 1) 0 20))) (descriptors w))"
    using getDebugStatus_listed [OF assms(1) r] by (simp add: l mainThread_def)
  show ?thesis
    using st status_response [OF st, of i a] r(1)
    by (simp add: snapshot_def mainThread_def resultResponse_def)
qed

lemma synthetic_thread_witness:
  "\<exists>st. fst (getDebugStatus unsupportedWorld) = Inr st \<and> isActive st
           \<and> threads st = Some [\<lparr>thread_id = 1, thread_name = ''main''\<rparr>]
           \<and> activeThreadId st = Some 1
           \<and> \<not> isPaused st
           \<and> fst (handleRequest unsupportedWorld (toolCall ''2.0'' (IdNumber 3) ''get_debug_status'' noArgs))
               = \<lparr>res_jsonrpc = ''2.0'', res_id = IdNumber 3,
                  res_result = Some (ToolContent (StatusResult st)), res_error = None\<rparr>"
proof -
  have s: "debug_activeDebugSession unsupportedWorld = Some unsupportedSession"
    by (simp add: unsupportedWorld_def)
  have t: "\<forall>th ths. customRequest unsupportedSession Threads \<noteq> Inr (ThreadsResponse (Some (th # ths)))"
    by (simp add: unsupportedSession_def)
  have f: "\<exists>e. customRequest unsupportedSession Threads = Inl e"
    by (simp add: unsupportedSession_def)
  from synthetic_thread [OF s t, of "IdNumber 3" noArgs] f show ?thesis
    by simp
qed

lemma tracedFrames_Some:
  "(tracedFrames w answer \<noteq> None) = (\<exists>fs. answer = Inr (StackTraceResponse (Some fs)))"
  by (simp add: tracedFrames_def split: sum.split dap_response.split option.split)

text \<open>
  C5, as the code has it. \<open>get_debug_status\<close> always returns a snapshot, which the router
  answers as a result. Its \<open>isPaused\<close> is true exactly when a session is active, the thread
  listing came back with a body, and the stack trace request for the active thread of the
  snapshot then returned frames. With no session it is false; when the stack trace request
  fails it is false; and when the thread listing fails it is false and no stack trace is
  asked for, the thread listing being the only request sent.
\<close>

theorem paused_when_traced:
  "\<exists>st. fst (getDebugStatus w) = Inr st
     \<and> isPaused st =
         (\<exists>s response fs. debug_activeDebugSession w = Some s
            \<and> customRequest s Threads = Inr response \<and> response \<noteq> NoBody
            \<and> customRequest s (StackTrace (activeThreadId st) 0 20)
                 = Inr (StackTraceResponse (Some fs)))
     \<and> (debug_activeDebugSession w = None \<longrightarrow> \<not> isPaused st)
     \<and> (\<forall>s e. debug_activeDebugSession w = Some s
            \<longrightarrow> customRequest s (StackTrace (activeThreadId st) 0 20) = Inl e
            \<longrightarrow> \<not> isPaused st)
     \<and> (\<forall>s e. debug_activeDebugSession w = Some s \<longrightarrow> customRequest s Threads = Inl e
            \<longrightarrow> \<not> isPaused st \<and> adapterLog (snd (getDebugStatus w)) = adapterLog w @ [Threads])
     \<and> fst (handleRequest w (toolCall ''2.0'' i ''get_debug_status'' a))
         = resultResponse i (ToolContent (StatusResult st))"
proof (cases "debug_activeDebugSession w")
  case None
  have st: "fst (getDebugStatus w) = Inr (snapshot None None None None (descriptors w))"
    by (rule getDebugStatus_inactive [OF None])
  show ?thesis
    using st status_response [OF st, of i a] None
    by (simp add: snapshot_def)
next
  case (Some s)
  show ?thesis
  proof (cases "(\<exists>e. customRequest s Threads = Inl e) \<or> customRequest s Threads = Inr NoBody")
    case True
    have st: "fst (getDebugStatus w)
           = Inr (snapshot (Some s) (Some [mainThread]) (Some 1) None (descriptors w))"
      by (rule getDebugStatus_unlisted [OF Some True])
    have log: "adapterLog (snd (getDebugStatus w)) = adapterLog w @ [Threads]"
      by (rule getDebugStatus_unlisted_log [OF Some True])
    have "\<not> (\<exists>response. customRequest s Threads = Inr response \<and> response \<noteq> NoBody)"
      using True by (cases "customRequest s Threads") simp_all
    then show ?thesis
      using st status_response [OF st, of i a] Some log
      by (simp add: snapshot_def)
  next
    case False
    then obtain response where r: "customRequest s Threads = Inr response" "response \<noteq> NoBody"
      by (cases "customRequest s Threads") simp_all
    define tid where "tid = Some (thread_id (hd (listedThreads response)))"
    define answer where "answer = customRequest s (StackTrace tid 0 20)"
    have st: "fst (getDebugStatus w)
           = Inr (snapshot (Some s) (Some (listedThreads response)) tid
                   (tracedFrames w answer) (descriptors w))"
      using getDebugStatus_listed [OF Some r] by (simp add: tid_def answer_def)
    have paused: "(tracedFrames w answer \<noteq> None) = (\<exists>fs. answer = Inr (StackTraceResponse (Some fs)))"
      by (rule tracedFrames_Some)
    have apart: "(\<exists>e. answer = Inl e) \<longrightarrow> (\<forall>fs. answer \<noteq> Inr (StackTraceResponse (Some fs)))"
      by (cases answer) simp_all
    show ?thesis
      using st status_response [OF st, of i a] Some r paused apart
      by (simp add: snapshot_def answer_def [symmetric])
  qed
qed

theorem paused_when_traced_witness:
  "\<exists>st. fst (getDebugStatus runningWorld) = Inr st \<and> activeThreadId st = Some 7
     \<and> \<not> isPaused st
     \<and> fst (handleRequest runningWorld (toolCall ''2.0'' (IdNumber 5) ''get_debug_status'' noArgs))
         = resultResponse (IdNumber 5) (ToolContent (StatusResult st))"
proof -
  have s: "debug_activeDebugSession runningWorld = Some runningSession"
    by (simp add: runningWorld_def)
  have known: "activeThreadId
      (case fst (getDebugStatus runningWorld) of Inr st \<Rightarrow> st) = Some 7"
    by code_simp
  have e: "customRequest runningSession (StackTrace (Some 7) 0 20)
             = Inl (Err ''Error'' ''Thread is not paused'')"
    by (simp add: runningSession_def)
  from paused_when_traced [of runningWorld "IdNumber 5" noArgs]
  obtain st where st: "fst (getDebugStatus runningWorld) = Inr st"
    and failure: "\<forall>s e. debug_activeDebugSession runningWorld = Some s
            \<longrightarrow> customRequest s (StackTrace (activeThreadId st) 0 20) = Inl e
            \<longrightarrow> \<not> isPaused st"
    and answered: "fst (handleRequest runningWorld (toolCall ''2.0'' (IdNumber 5) ''get_debug_status'' noArgs))
         = resultResponse (IdNumber 5) (ToolContent (StatusResult st))"
    by (elim exE conjE)
  have tid: "activeThreadId st = Some 7"
    using known st by simp
  have "\<not> isPaused st"
    using failure s e tid by simp
  then show ?thesis
    using st tid answered by simp
qed

text \<open>
  The claim of C5 fails on the code where the thread listing fails while the program is
  paused: the stack trace of the active thread, thread 1, can be had from this adapter, and
  the snapshot says \<open>isPaused: false\<close>, because the stack trace is only asked for after a
  thread listing that succeeded.
\<close>

theorem paused_without_threads:
  "debug_activeDebugSession threadlessWorld = Some threadlessSession \<and>
   customRequest threadlessSession (StackTrace (Some 1) 0 20)
     = Inr (StackTraceResponse (Some [pausedFrame])) \<and>
   fst (getDebugStatus threadlessWorld) =
     Inr \<lparr>isActive = True, isPaused = False,
          activeSession = Some \<lparr>info_id = ''2'', info_name = ''Attach'', info_type = ''custom''\<rparr>,
          threads = Some [\<lparr>thread_id = 1, thread_name = ''main''\<rparr>],
          activeThreadId = Some 1, stackFrames = None, breakpoints = []\<rparr>"
  by (simp add: threadlessWorld_def threadlessSession_def emptyWorld_def getDebugStatus_def
      Let_def entered_def sendRequest_def snapshot_def mainThread_def descriptors_def
      List.map_filter_simps)

section \<open>Broadcast\<close>

lemma broadcastTo_broken: "broken (broadcastTo xs msg t) = broken t"
  by (induction xs arbitrary: t) simp_all

lemma broadcastTo_effect:
  assumes "\<forall>c \<in> set xs. \<not> broken t c \<longrightarrow> c \<in> set (clients t)"
  shows "clients (broadcastTo xs msg t) = filter (\<lambda>c. c \<notin> set xs \<or> \<not> broken t c) (clients t)
       \<and> written (broadcastTo xs msg t)
           = written t @ map (\<lambda>c. (c, msg)) (filter (\<lambda>c. \<not> broken t c) xs)"
  using assms
proof (induction xs arbitrary: t)
  case Nil
  then show ?case by simp
next
  case (Cons client rest)
  show ?case
  proof (cases "client \<in> set (clients t)")
    case False
    then have b: "broken t client"
      using Cons.prems by auto
    have "filter (\<lambda>c. c \<notin> set (client # rest) \<or> \<not> broken t c) (clients t)
            = filter (\<lambda>c. c \<notin> set rest \<or> \<not> broken t c) (clients t)"
      using False by (intro filter_cong) auto
    then show ?thesis
      using False b Cons.IH [of t] Cons.prems by simp
  next
    case member: True
    show ?thesis
    proof (cases "broken t client")
      case True
      define t' where "t' = t\<lparr>clients := removeAll client (clients t)\<rparr>"
      have p: "\<forall>c \<in> set rest. \<not> broken t' c \<longrightarrow> c \<in> set (clients t')"
        using Cons.prems True by (auto simp: t'_def)
      have "filter (\<lambda>c. c \<notin> set rest \<or> \<not> broken t c) (removeAll client (clients t))
              = filter (\<lambda>c. c \<notin> set (client # rest) \<or> \<not> broken t c) (clients t)"
        unfolding removeAll_filter_not_eq filter_filter
        using True by (intro filter_cong) auto
      then show ?thesis
        using member True Cons.IH [OF p] by (simp add: t'_def)
    next
      case False
      define t' where "t' = t\<lparr>written := written t @ [(client, msg)]\<rparr>"
      have p: "\<forall>c \<in> set rest. \<not> broken t' c \<longrightarrow> c \<in> set (clients t')"
        using Cons.prems by (auto simp: t'_def)
      have "filter (\<lambda>c. c \<notin> set (client # rest) \<or> \<not> broken t c) (clients t)
              = filter (\<lambda>c. c \<notin> set rest \<or> \<not> broken t c) (clients t)"
        using False by (intro filter_cong) auto
      then show ?thesis
        using member False Cons.IH [OF p] by (simp add: t'_def)
    qed
  qed
qed

text \<open>
  C7. A broadcast writes the payload once to every open channel whose write succeeds, in
  order, and removes exactly the channels whose write throws; a channel that throws does not
  stop the writes to the channels after it. The reply to the POST is the router's response
  with status 200, whatever the channels do.
\<close>

theorem broadcast_contained:
  "clients (broadcast msg t) = filter (\<lambda>c. \<not> broken t c) (clients t) \<and>
   written (broadcast msg t)
     = written t @ map (\<lambda>c. (c, msg)) (filter (\<lambda>c. \<not> broken t c) (clients t)) \<and>
   fst (post (Body request) w t) = \<lparr>status = 200, payload = fst (handleRequest w request)\<rparr> \<and>
   snd (snd (post (Body request) w t)) = broadcast (fst (handleRequest w request)) t"
proof -
  have "\<forall>c \<in> set (clients t). \<not> broken t c \<longrightarrow> c \<in> set (clients t)"
    by simp
  from broadcastTo_effect [OF this, of msg]
  have "clients (broadcast msg t)
          = filter (\<lambda>c. c \<notin> set (clients t) \<or> \<not> broken t c) (clients t)"
    and wr: "written (broadcast msg t)
          = written t @ map (\<lambda>c. (c, msg)) (filter (\<lambda>c. \<not> broken t c) (clients t))"
    by (simp_all add: broadcast_def)
  moreover have "filter (\<lambda>c. c \<notin> set (clients t) \<or> \<not> broken t c) (clients t)
          = filter (\<lambda>c. \<not> broken t c) (clients t)"
    by (intro filter_cong) auto
  ultimately show ?thesis
    by (simp add: post_def split: prod.split)
qed

theorem broadcast_contained_witness:
  "clients (broadcast (createErrorResponse IdNull (- 32603) ''x'') threeListeners) = [1, 3] \<and>
   written (broadcast (createErrorResponse IdNull (- 32603) ''x'') threeListeners)
     = [(1, createErrorResponse IdNull (- 32603) ''x''),
        (3, createErrorResponse IdNull (- 32603) ''x'')]"
  using broadcast_contained [of "createErrorResponse IdNull (- 32603) ''x''" threeListeners]
  by (simp add: threeListeners_def)

section \<open>Paths under a workspace folder\<close>

lemma split_path_segment: "CHR ''/'' \<notin> set s \<Longrightarrow> split_path (s @ CHR ''/'' # r) = s # split_path r"
  by (induction s) auto

lemma split_path_name: "CHR ''/'' \<notin> set s \<Longrightarrow> split_path s = [s]"
  by (induction s) auto

lemma split_path_join:
  "list_all plain segs \<Longrightarrow> segs \<noteq> [] \<Longrightarrow> split_path (join_with ''/'' segs) = segs"
proof (induction "''/''" segs rule: join_with.induct)
  case 1
  then show ?case by simp
next
  case (2 x)
  then show ?case by (simp add: plain_def split_path_name)
next
  case (3 x y ys)
  then have "split_path (x @ CHR ''/'' # join_with ''/'' (y # ys)) = x # split_path (join_with ''/'' (y # ys))"
    by (intro split_path_segment) (simp add: plain_def)
  with 3 show ?case by simp
qed

lemma norm_segs_plain: "list_all plain xs \<Longrightarrow> norm_segs b acc xs = rev acc @ xs"
  by (induction xs arbitrary: acc) (simp_all add: plain_def)

lemma absolute_isAbsolute: "path_isAbsolute (absolute segs)"
  by (simp add: absolute_def path_isAbsolute_def)

lemma resolve_segs_absolute:
  assumes "list_all plain segs"
  shows "resolve_segs c (absolute segs) = segs"
proof (cases "segs = []")
  case True
  then show ?thesis
    by (simp add: resolve_segs_def absolute_def path_isAbsolute_def)
next
  case False
  have "split_path (absolute segs) = [] # segs"
    using split_path_join [OF assms False] by (simp add: absolute_def)
  then show ?thesis
    using norm_segs_plain [OF assms, of False "[]"]
    by (simp add: resolve_segs_def absolute_isAbsolute)
qed

lemma strip_common_append: "strip_common xs (xs @ ys) = ([], ys)"
  by (induction xs) simp_all

lemma path_relative_under:
  assumes "list_all plain segs" and "list_all plain rest" and "rest \<noteq> []"
  shows "path_relative c (absolute segs) (absolute (segs @ rest)) = join_with ''/'' rest"
proof -
  have a: "resolve_segs c (absolute segs) = segs"
    by (rule resolve_segs_absolute [OF assms(1)])
  have b: "resolve_segs c (absolute (segs @ rest)) = segs @ rest"
    using assms(1,2) by (intro resolve_segs_absolute) simp
  have "absolute segs \<noteq> absolute (segs @ rest)"
  proof
    assume "absolute segs = absolute (segs @ rest)"
    then have "resolve_segs c (absolute segs) = resolve_segs c (absolute (segs @ rest))"
      by simp
    then show False
      using a b assms(3) by simp
  qed
  then show ?thesis
    by (simp add: path_relative_def a b strip_common_append)
qed

lemma join_with_append:
  "xs \<noteq> [] \<Longrightarrow> ys \<noteq> [] \<Longrightarrow> join_with sep (xs @ ys) = join_with sep xs @ sep @ join_with sep ys"
proof (induction sep xs rule: join_with.induct)
  case (1 sep)
  then show ?case by simp
next
  case (2 sep x)
  then show ?case by (cases ys) simp_all
next
  case (3 sep x y zs)
  then show ?case by simp
qed

lemma absolute_append:
  "rest \<noteq> [] \<Longrightarrow>
   absolute (segs @ rest) = absolute segs @ (if segs = [] then [] else ''/'') @ join_with ''/'' rest"
  by (simp add: absolute_def join_with_append)

lemma startsWith_under: "rest \<noteq> [] \<Longrightarrow> startsWith (absolute (segs @ rest)) (absolute segs)"
  by (simp add: absolute_append startsWith_def)

lemma join_with_plain: "list_all plain rest \<Longrightarrow> rest \<noteq> [] \<Longrightarrow> join_with ''/'' rest \<noteq> []"
  by (induction "''/''" rest rule: join_with.induct) (simp_all add: plain_def)

lemma join_with_last:
  "list_all plain rest \<Longrightarrow> rest \<noteq> [] \<Longrightarrow> last (join_with ''/'' rest) \<noteq> CHR ''/''"
proof (induction "''/''" rest rule: join_with.induct)
  case 1
  then show ?case by simp
next
  case (2 x)
  then show ?case by (simp add: plain_def) (metis last_in_set)
next
  case (3 x y ys)
  then have "join_with ''/'' (y # ys) \<noteq> []"
    by (intro join_with_plain) simp_all
  with 3 show ?case by simp
qed

lemma path_join_under:
  assumes "list_all plain segs" and "list_all plain rest" and "rest \<noteq> []"
  shows "path_join [absolute segs, join_with ''/'' rest] = absolute (segs @ rest)"
proof -
  define p where "p = absolute segs @ ''/'' @ join_with ''/'' rest"
  have r: "join_with ''/'' rest \<noteq> []"
    by (rule join_with_plain [OF assms(2,3)])
  have all: "list_all plain (segs @ rest)"
    using assms(1,2) by simp
  have joined: "path_join [absolute segs, join_with ''/'' rest] = path_normalize p"
    using r by (simp add: path_join_def p_def absolute_def)
  have abs: "path_isAbsolute p" and ne: "p \<noteq> []"
    by (simp_all add: p_def absolute_def path_isAbsolute_def)
  have trail: "last p \<noteq> CHR ''/''"
    using join_with_last [OF assms(2,3)] r by (simp add: p_def)
  have segs: "norm_segs False [] (split_path p) = segs @ rest"
  proof (cases "segs = []")
    case True
    have "split_path p = [] # [] # rest"
      using split_path_join [OF assms(2,3)] by (simp add: p_def absolute_def True)
    then show ?thesis
      using norm_segs_plain [OF assms(2), of False "[]"] True by simp
  next
    case False
    have "p = absolute (segs @ rest)"
      using False assms(3) by (simp add: p_def absolute_append)
    then have "split_path p = [] # (segs @ rest)"
      using split_path_join [OF all] False by (simp add: absolute_def)
    then show ?thesis
      using norm_segs_plain [OF all, of False "[]"] by simp
  qed
  have body: "join_with ''/'' (segs @ rest) \<noteq> []"
    using all assms(3) by (intro join_with_plain) simp_all
  show ?thesis
    unfolding joined
    using abs ne trail body
    by (simp add: path_normalize_def Let_def segs absolute_def)
qed

section \<open>Breakpoints\<close>

lemma getDebugStatus_keeps:
  "debug_breakpoints (snd (getDebugStatus w)) = debug_breakpoints w"
  "workspace_workspaceFolders (snd (getDebugStatus w)) = workspace_workspaceFolders w"
  "cwd (snd (getDebugStatus w)) = cwd w"
  by (simp_all add: getDebugStatus_def entered_def Let_def sendRequest_def stackTraceOf_def
      split: option.split sum.split prod.split)

lemma getDebugStatus_breakpoints:
  "\<exists>st. fst (getDebugStatus w) = Inr st \<and> breakpoints st = descriptors w"
proof (cases "debug_activeDebugSession w")
  case None
  then show ?thesis
    using getDebugStatus_inactive by (simp add: snapshot_def)
next
  case (Some s)
  show ?thesis
  proof (cases "(\<exists>e. customRequest s Threads = Inl e) \<or> customRequest s Threads = Inr NoBody")
    case True
    then show ?thesis
      using getDebugStatus_unlisted [OF Some] by (simp add: snapshot_def)
  next
    case False
    then obtain response where "customRequest s Threads = Inr response" "response \<noteq> NoBody"
      by (cases "customRequest s Threads") simp_all
    then show ?thesis
      using getDebugStatus_listed [OF Some] by (simp add: snapshot_def)
  qed
qed

lemma plain_name: "plain ''a.js''"
  by (simp add: plain_def)

lemma resolveFilePath_relative:
  assumes "workspace_workspaceFolders w = Some (absolute segs # others)" and "list_all plain segs"
    and "list_all plain rest" and "rest \<noteq> []"
  shows "resolveFilePath w (Some (join_with ''/'' rest)) = Inr (absolute (segs @ rest))"
proof -
  obtain x xs where rest: "rest = x # xs"
    using assms(4) by (cases rest) simp_all
  then obtain c cs where x: "x = c # cs" "c \<noteq> CHR ''/''"
    using assms(3) by (cases x) (auto simp: plain_def)
  have "join_with ''/'' (x # xs) = x @ (if xs = [] then [] else ''/'' @ join_with ''/'' xs)"
    by (cases xs) simp_all
  then have "\<not> path_isAbsolute (join_with ''/'' rest)"
    using x by (simp add: rest path_isAbsolute_def)
  then show ?thesis
    using assms(1) path_join_under [OF assms(2,3,4)] by (simp add: resolveFilePath_def)
qed

lemma getRelativePath_under:
  assumes "workspace_workspaceFolders w = Some (absolute segs # others)" and "list_all plain segs"
    and "list_all plain rest" and "rest \<noteq> []"
  shows "getRelativePath w (absolute (segs @ rest)) = join_with ''/'' rest"
  using assms(1) startsWith_under [OF assms(4), of segs] path_relative_under [OF assms(2,3,4)]
  by (simp add: getRelativePath_def)

lemma setBreakpoint_relative:
  assumes "workspace_workspaceFolders w = Some (absolute segs # others)" and "list_all plain segs"
    and "list_all plain rest" and "rest \<noteq> []"
    and "arg_path a = Some (join_with ''/'' rest)" and "arg_line a = Some n" and "0 < n"
  shows "setBreakpoint w (Some a) =
           (Inr (SourceBreakpoint (absolute (segs @ rest)) (Some (n - 1)) True (arg_condition a)),
            (entered SetBreakpoint w)\<lparr>debug_breakpoints := debug_breakpoints w
               @ [SourceBreakpoint (absolute (segs @ rest)) (Some (n - 1)) True (arg_condition a)]\<rparr>)"
proof -
  have "workspace_workspaceFolders (entered SetBreakpoint w) = Some (absolute segs # others)"
    using assms(1) by (simp add: entered_def)
  from resolveFilePath_relative [OF this assms(2,3,4)] show ?thesis
    using assms(5,6,7)
    by (simp add: setBreakpoint_def Let_def new_Position_def) (simp add: entered_def)
qed

lemma removeBreakpoint_relative:
  assumes "workspace_workspaceFolders w = Some (absolute segs # others)" and "list_all plain segs"
    and "list_all plain rest" and "rest \<noteq> []"
    and "arg_path a = Some (join_with ''/'' rest)" and "arg_line a = Some n"
  shows "fst (removeBreakpoint w (Some a)) = Inr ()"
    and "debug_breakpoints (snd (removeBreakpoint w (Some a))) =
           filter (\<lambda>bp. \<not> located_at (absolute (segs @ rest)) (Some (n - 1)) bp) (debug_breakpoints w)"
    and "workspace_workspaceFolders (snd (removeBreakpoint w (Some a))) = workspace_workspaceFolders w"
    and "cwd (snd (removeBreakpoint w (Some a))) = cwd w"
proof -
  define w0 where "w0 = entered RemoveBreakpoint w"
  have "workspace_workspaceFolders w0 = Some (absolute segs # others)"
    using assms(1) by (simp add: w0_def entered_def)
  from resolveFilePath_relative [OF this assms(2,3,4)]
  have r: "resolveFilePath w0 (arg_path a) = Inr (absolute (segs @ rest))"
    using assms(5) by simp
  have b: "debug_breakpoints w0 = debug_breakpoints w"
    "workspace_workspaceFolders w0 = workspace_workspaceFolders w" "cwd w0 = cwd w"
    by (simp_all add: w0_def entered_def)
  have none: "filter (\<lambda>bp. \<not> P bp) xs = xs" if "filter P xs = []" for P and xs :: "breakpoint list"
    using that by (induction xs) (simp_all split: if_splits)
  show "fst (removeBreakpoint w (Some a)) = Inr ()"
    using r by (simp add: removeBreakpoint_def Let_def w0_def [symmetric])
  show "debug_breakpoints (snd (removeBreakpoint w (Some a))) =
           filter (\<lambda>bp. \<not> located_at (absolute (segs @ rest)) (Some (n - 1)) bp) (debug_breakpoints w)"
    using r b(1) none assms(6) by (simp add: removeBreakpoint_def Let_def w0_def [symmetric])
  show "workspace_workspaceFolders (snd (removeBreakpoint w (Some a))) = workspace_workspaceFolders w"
    using r b(2) by (simp add: removeBreakpoint_def Let_def w0_def [symmetric])
  show "cwd (snd (removeBreakpoint w (Some a))) = cwd w"
    using r b(3) by (simp add: removeBreakpoint_def Let_def w0_def [symmetric])
qed

lemma split_path_joined:
  "\<forall>s \<in> set xs. CHR ''/'' \<notin> set s \<Longrightarrow> xs \<noteq> [] \<Longrightarrow> split_path (join_with ''/'' xs) = xs"
proof (induction "''/''" xs rule: join_with.induct)
  case 1
  then show ?case by simp
next
  case (2 x)
  then show ?case by (simp add: split_path_name)
next
  case (3 x y ys)
  then have "split_path (x @ CHR ''/'' # join_with ''/'' (y # ys)) = x # split_path (join_with ''/'' (y # ys))"
    by (intro split_path_segment) simp
  with 3 show ?case by simp
qed

lemma strip_common_split:
  "strip_common xs ys = (fs, ts) \<Longrightarrow> \<exists>pre. xs = pre @ fs \<and> ys = pre @ ts"
proof (induction xs arbitrary: ys)
  case Nil
  then have "[] = [] @ fs \<and> ys = [] @ ts"
    by simp
  then show ?case ..
next
  case step: (Cons x xs)
  show ?case
  proof (cases ys)
    case Nil
    with step.prems have "x # xs = [] @ fs \<and> ys = [] @ ts"
      by simp
    then show ?thesis ..
  next
    case ys: (Cons y zs)
    show ?thesis
    proof (cases "x = y")
      case True
      then have "strip_common xs zs = (fs, ts)"
        using step.prems ys by simp
      then obtain pre where "xs = pre @ fs" "zs = pre @ ts"
        using step.IH by blast
      then have "x # xs = (x # pre) @ fs \<and> ys = (x # pre) @ ts"
        using True ys by simp
      then show ?thesis ..
    next
      case False
      then have "x # xs = [] @ fs \<and> ys = [] @ ts"
        using step.prems ys by simp
      then show ?thesis ..
    qed
  qed
qed

lemma join_with_relative:
  assumes "list_all plain rest" and "rest \<noteq> []"
  shows "\<not> path_isAbsolute (join_with ''/'' rest)"
proof -
  obtain x xs where rest: "rest = x # xs"
    using assms(2) by (cases rest) simp_all
  then obtain c cs where x: "x = c # cs" "c \<noteq> CHR ''/''"
    using assms(1) by (cases x) (auto simp: plain_def)
  have "join_with ''/'' (x # xs) = x @ (if xs = [] then [] else ''/'' @ join_with ''/'' xs)"
    by (cases xs) simp_all
  then show ?thesis
    using x by (simp add: rest path_isAbsolute_def)
qed

lemma relative_is_rest:
  assumes "list_all plain segs" and "list_all plain ps" and "list_all plain rest" and "rest \<noteq> []"
    and rel: "path_relative c (absolute segs) (absolute ps) = join_with ''/'' rest"
  shows "ps = segs @ rest"
proof -
  have r: "join_with ''/'' rest \<noteq> []"
    by (rule join_with_plain [OF assms(3,4)])
  obtain fs ts where st: "strip_common segs ps = (fs, ts)"
    by (cases "strip_common segs ps")
  then obtain pre where pre: "segs = pre @ fs" "ps = pre @ ts"
    using strip_common_split by blast
  define ups where "ups = replicate (length fs) ''..'' @ ts"
  have eq: "join_with ''/'' ups = join_with ''/'' rest"
    using rel r st
    by (simp add: path_relative_def resolve_segs_absolute assms(1,2) ups_def split: if_splits)
  have ups: "ups \<noteq> []"
    using eq r by (cases ups) simp_all
  have "\<forall>s \<in> set ts. CHR ''/'' \<notin> set s"
    using assms(2) pre(2) by (simp add: list_all_iff plain_def)
  then have noslash: "\<forall>s \<in> set ups. CHR ''/'' \<notin> set s"
    by (auto simp: ups_def)
  have "\<forall>s \<in> set rest. CHR ''/'' \<notin> set s"
    using assms(3) by (simp add: list_all_iff plain_def)
  then have "split_path (join_with ''/'' rest) = rest"
    using assms(4) by (intro split_path_joined)
  moreover have "split_path (join_with ''/'' ups) = ups"
    using noslash ups by (intro split_path_joined)
  ultimately have same: "ups = rest"
    using eq by simp
  have "fs = []"
  proof (rule ccontr)
    assume "fs \<noteq> []"
    then have "hd ups = ''..''"
      by (cases fs) (simp_all add: ups_def)
    then have "hd rest = ''..''"
      using same by simp
    moreover have "plain (hd rest)"
      using assms(3,4) by (cases rest) simp_all
    ultimately show False
      by (simp add: plain_def)
  qed
  then show ?thesis
    using same pre by (simp add: ups_def)
qed

lemma getRelativePath_only:
  assumes "workspace_workspaceFolders w = Some [absolute segs]" and "list_all plain segs"
    and "list_all plain ps" and "list_all plain rest" and "rest \<noteq> []"
    and "getRelativePath w (absolute ps) = join_with ''/'' rest"
  shows "ps = segs @ rest"
proof (cases "startsWith (absolute ps) (absolute segs)")
  case True
  then have "path_relative (cwd w) (absolute segs) (absolute ps) = join_with ''/'' rest"
    using assms(1,6) by (simp add: getRelativePath_def)
  then show ?thesis
    by (rule relative_is_rest [OF assms(2,3,4,5)])
next
  case False
  then have "absolute ps = join_with ''/'' rest"
    using assms(1,6) by (simp add: getRelativePath_def)
  then have "path_isAbsolute (join_with ''/'' rest)"
    using absolute_isAbsolute [of ps] by simp
  then show ?thesis
    using join_with_relative [OF assms(4,5)] by simp
qed

lemma descriptors_member:
  "d \<in> set (descriptors w) \<Longrightarrow> \<exists>b \<in> set (debug_breakpoints w). descriptor w b = Some d"
  by (auto simp: descriptors_def List.map_filter_def)

text \<open>
  C8. In a workspace whose first folder has a normalised absolute path, \<open>set_breakpoint\<close>
  with \<open>{path: "a.js", line: 10}\<close> succeeds, and the \<open>get_debug_status\<close> that follows
  lists a breakpoint with path \<open>a.js\<close> and line 10. \<open>remove_breakpoint\<close> with the same
  path and line then succeeds; no breakpoint at that target and line is left, the status
  that follows lists the breakpoints that are left and nothing that was not listed before
  the breakpoint was set. With one workspace folder and breakpoints at normalised absolute
  paths, no entry with path \<open>a.js\<close> and line 10 is listed any more.
\<close>

theorem breakpoint_round_trip:
  assumes folders: "workspace_workspaceFolders w = Some (absolute segs # others)"
    and segs: "list_all plain segs"
    and a: "arg_path a = Some ''a.js''" "arg_line a = Some 10"
    and a': "arg_path a' = Some ''a.js''" "arg_line a' = Some 10"
  shows "\<exists>bp w1 st1 w2 w3 st2 w4.
           setBreakpoint w (Some a) = (Inr bp, w1) \<and> getDebugStatus w1 = (Inr st1, w2)
         \<and> removeBreakpoint w2 (Some a') = (Inr (), w3) \<and> getDebugStatus w3 = (Inr st2, w4)
         \<and> \<lparr>path = ''a.js'', line = Some 10, enabled = True, condition = arg_condition a\<rparr>
               \<in> set (breakpoints st1)
         \<and> (\<forall>b \<in> set (debug_breakpoints w3).
               \<not> located_at (absolute (segs @ [''a.js''])) (Some 9) b)
         \<and> breakpoints st2 = descriptors w3
         \<and> set (breakpoints st2) \<subseteq> set (descriptors w)
         \<and> (others = []
              \<and> (\<forall>p l en c. SourceBreakpoint p l en c \<in> set (debug_breakpoints w)
                     \<longrightarrow> (\<exists>ps. list_all plain ps \<and> p = absolute ps))
              \<longrightarrow> (\<forall>d \<in> set (breakpoints st2). \<not> (path d = ''a.js'' \<and> line d = Some 10)))"
proof -
  define target where "target = absolute (segs @ [''a.js''])"
  define bp where "bp = SourceBreakpoint target (Some 9) True (arg_condition a)"
  define w1 where "w1 = (entered SetBreakpoint w)\<lparr>debug_breakpoints := debug_breakpoints w @ [bp]\<rparr>"
  have name: "list_all plain [''a.js'']" "[''a.js''] \<noteq> []"
    by (simp_all add: plain_def)
  have joined: "join_with ''/'' [''a.js''] = ''a.js''"
    by simp
  have set: "setBreakpoint w (Some a) = (Inr bp, w1)"
    using setBreakpoint_relative [OF folders segs name, of a 10] a
    by (simp add: bp_def w1_def target_def)
  have w1: "workspace_workspaceFolders w1 = Some (absolute segs # others)" "cwd w1 = cwd w"
    "debug_breakpoints w1 = debug_breakpoints w @ [bp]"
    using folders by (simp_all add: w1_def entered_def)
  obtain st1 where st1: "fst (getDebugStatus w1) = Inr st1" "breakpoints st1 = descriptors w1"
    using getDebugStatus_breakpoints [of w1] by (elim exE conjE)
  define w2 where "w2 = snd (getDebugStatus w1)"
  have get1: "getDebugStatus w1 = (Inr st1, w2)"
    using st1(1) by (cases "getDebugStatus w1") (simp add: w2_def)
  have w2: "workspace_workspaceFolders w2 = Some (absolute segs # others)" "cwd w2 = cwd w"
    "debug_breakpoints w2 = debug_breakpoints w @ [bp]"
    using w1 by (simp_all add: w2_def getDebugStatus_keeps)
  define w3 where "w3 = snd (removeBreakpoint w2 (Some a'))"
  have "fst (removeBreakpoint w2 (Some a')) = Inr ()"
    using removeBreakpoint_relative(1) [OF w2(1) segs name, of a' 10] a' by simp
  then have remove: "removeBreakpoint w2 (Some a') = (Inr (), w3)"
    by (cases "removeBreakpoint w2 (Some a')") (simp add: w3_def)
  have at: "located_at target (Some 9) bp"
    by (simp add: bp_def num_eq_def)
  have "debug_breakpoints w3
          = filter (\<lambda>b. \<not> located_at target (Some 9) b) (debug_breakpoints w2)"
    using removeBreakpoint_relative(2) [OF w2(1) segs name, of a' 10] a'
    by (simp add: w3_def target_def)
  then have left: "debug_breakpoints w3
          = filter (\<lambda>b. \<not> located_at target (Some 9) b) (debug_breakpoints w)"
    using w2(3) at by simp
  have w3: "workspace_workspaceFolders w3 = workspace_workspaceFolders w" "cwd w3 = cwd w"
    using removeBreakpoint_relative(3,4) [OF w2(1) segs name, of a' 10] a' w2(1,2) folders
    by (simp_all add: w3_def)
  obtain st2 where st2: "fst (getDebugStatus w3) = Inr st2" "breakpoints st2 = descriptors w3"
    using getDebugStatus_breakpoints [of w3] by (elim exE conjE)
  define w4 where "w4 = snd (getDebugStatus w3)"
  have get2: "getDebugStatus w3 = (Inr st2, w4)"
    using st2(1) by (cases "getDebugStatus w3") (simp add: w4_def)
  have "getRelativePath w1 target = ''a.js''"
    using getRelativePath_under [OF w1(1) segs name] by (simp add: target_def)
  then have "descriptor w1 bp
      = Some \<lparr>path = ''a.js'', line = Some 10, enabled = True, condition = arg_condition a\<rparr>"
    by (simp add: bp_def)
  then have listed: "\<lparr>path = ''a.js'', line = Some 10, enabled = True, condition = arg_condition a\<rparr>
               \<in> set (breakpoints st1)"
    by (simp add: st1(2) descriptors_def w1(3) List.map_filter_def)
  have gone: "\<forall>b \<in> set (debug_breakpoints w3). \<not> located_at target (Some 9) b"
    by (simp add: left)
  have same: "descriptor w3 = descriptor w"
  proof
    fix b
    show "descriptor w3 b = descriptor w b"
      using getRelativePath_frame [OF w3] by (cases b) simp_all
  qed
  have sub: "set (breakpoints st2) \<subseteq> set (descriptors w)"
    by (auto simp: st2(2) descriptors_def left same List.map_filter_def)
  have absent: "\<forall>d \<in> set (breakpoints st2). \<not> (path d = ''a.js'' \<and> line d = Some 10)"
    if single: "others = []"
      and normal: "\<forall>p l en c. SourceBreakpoint p l en c \<in> set (debug_breakpoints w)
                     \<longrightarrow> (\<exists>ps. list_all plain ps \<and> p = absolute ps)"
  proof (intro ballI notI)
    fix d
    assume d: "d \<in> set (breakpoints st2)" and there: "path d = ''a.js'' \<and> line d = Some 10"
    from d obtain b where b: "b \<in> set (debug_breakpoints w3)" "descriptor w3 b = Some d"
      using descriptors_member [of d w3] st2(2) by auto
    from b(2) obtain p l en c where src: "b = SourceBreakpoint p l en c"
      by (cases b) simp_all
    have inw: "SourceBreakpoint p l en c \<in> set (debug_breakpoints w)"
      and away: "\<not> located_at target (Some 9) (SourceBreakpoint p l en c)"
      using b(1) src by (simp_all add: left)
    from normal inw obtain ps where ps: "list_all plain ps" "p = absolute ps"
      by blast
    have d': "d = \<lparr>path = getRelativePath w p, line = map_option (\<lambda>n. n + 1) l,
                   enabled = en, condition = c\<rparr>"
      using b(2) src same by simp
    have "getRelativePath w (absolute ps) = join_with ''/'' [''a.js'']"
      using there d' ps(2) by simp
    then have "ps = segs @ [''a.js'']"
      using getRelativePath_only [OF _ segs ps(1) name] folders single by simp
    then have "p = target"
      by (simp add: ps(2) target_def)
    moreover have "l = Some 9"
      using there d' by (cases l) simp_all
    ultimately show False
      using away by (simp add: num_eq_def)
  qed
  show ?thesis
    using set get1 remove get2 listed gone st2(2) sub absent
    unfolding target_def by blast
qed
theorem breakpoint_round_trip_witness:
  "\<exists>bp w1 st1 w2 w3 st2 w4.
     setBreakpoint emptyWorld (Some breakpointArgs) = (Inr bp, w1)
   \<and> getDebugStatus w1 = (Inr st1, w2)
   \<and> removeBreakpoint w2 (Some breakpointArgs) = (Inr (), w3)
   \<and> getDebugStatus w3 = (Inr st2, w4)
   \<and> \<lparr>path = ''a.js'', line = Some 10, enabled = True, condition = None\<rparr>
         \<in> set (breakpoints st1)
   \<and> breakpoints st2 = []"
proof -
  have f: "workspace_workspaceFolders emptyWorld = Some (absolute [''ws''] # [])"
    by (simp add: emptyWorld_def absolute_def)
  have p: "list_all plain [''ws'']"
    by (simp add: plain_def)
  have a: "arg_path breakpointArgs = Some ''a.js''" "arg_line breakpointArgs = Some 10"
    "arg_condition breakpointArgs = None"
    by (simp_all add: breakpointArgs_def noArgs_def)
  have none: "descriptors emptyWorld = []"
    by (simp add: descriptors_def emptyWorld_def List.map_filter_def)
  from breakpoint_round_trip [OF f p a(1,2) a(1,2)]
  obtain bp w1 st1 w2 w3 st2 w4 where
    "setBreakpoint emptyWorld (Some breakpointArgs) = (Inr bp, w1)"
    "getDebugStatus w1 = (Inr st1, w2)"
    "removeBreakpoint w2 (Some breakpointArgs) = (Inr (), w3)"
    "getDebugStatus w3 = (Inr st2, w4)"
    "\<lparr>path = ''a.js'', line = Some 10, enabled = True, condition = arg_condition breakpointArgs\<rparr>
       \<in> set (breakpoints st1)"
    "set (breakpoints st2) \<subseteq> set (descriptors emptyWorld)"
    by (elim exE conjE)
  then show ?thesis
    using a(3) none by (intro exI [of _ bp] exI [of _ w1] exI [of _ st1] exI [of _ w2]
        exI [of _ w3] exI [of _ st2] exI [of _ w4]) simp
qed

section \<open>Paths on output\<close>










text \<open>
  \<open>getRelativePath\<close> tests a string prefix, not containment: a path beside the workspace
  folder whose name extends the folder's name is rewritten too.
\<close>

lemma prefix_is_not_containment:
  "getRelativePath emptyWorld ''/ws-other/a.js'' = ''../ws-other/a.js''"
  by code_simp

end
